theory Spec2Isabelle
  imports Main
begin

section \<open>Go library functions used by the sources\<close>

text \<open>
  Go strings are byte sequences; they are modelled as \<open>string\<close> (a list of 8-bit
  characters). The functions of this section embed the documented behaviour of the
  standard library functions that \<^verbatim>\<open>get.go\<close> and \<^verbatim>\<open>pkg/bingo/mod.go\<close> call.
\<close>

text \<open>
  \<^verbatim>\<open>strings.Split(s, sep)\<close> for a one-byte separator: all pieces of \<open>s\<close> between
  occurrences of \<open>sep\<close>; never the empty list (the first branch of the case is
  unreachable, see \<open>Split_ne\<close>).
\<close>

fun Split :: "string \<Rightarrow> char \<Rightarrow> string list" where
  "Split [] sep = [[]]"
| "Split (c # cs) sep =
     (case Split cs sep of
        [] \<Rightarrow> [[c]]
      | x # xs \<Rightarrow> if c = sep then [] # x # xs else (c # x) # xs)"

text \<open>\<^verbatim>\<open>strings.Join(elems, sep)\<close>.\<close>

fun Join :: "string list \<Rightarrow> string \<Rightarrow> string" where
  "Join [] sep = []"
| "Join [x] sep = x"
| "Join (x # y # ys) sep = x @ sep @ Join (y # ys) sep"

definition HasPrefix :: "string \<Rightarrow> string \<Rightarrow> bool" where
  "HasPrefix s p = (take (length p) s = p)"

definition HasSuffix :: "string \<Rightarrow> string \<Rightarrow> bool" where
  "HasSuffix s x = (length x \<le> length s \<and> drop (length s - length x) s = x)"

definition TrimPrefix :: "string \<Rightarrow> string \<Rightarrow> string" where
  "TrimPrefix s p = (if HasPrefix s p then drop (length p) s else s)"

definition TrimSuffix :: "string \<Rightarrow> string \<Rightarrow> string" where
  "TrimSuffix s x = (if HasSuffix s x then take (length s - length x) s else s)"

text \<open>\<^verbatim>\<open>strings.Trim(s, cutset)\<close> for a one-byte cutset.\<close>

definition Trim :: "string \<Rightarrow> char \<Rightarrow> string" where
  "Trim s c = rev (dropWhile (\<lambda>d. d = c) (rev (dropWhile (\<lambda>d. d = c) s)))"

text \<open>
  \<^verbatim>\<open>strings.ToLower\<close> on ASCII input: the bytes \<open>A\<close>..\<open>Z\<close> are mapped to
  \<open>a\<close>..\<open>z\<close>. Bytes from 0x80 on are left as they are (Go would apply the Unicode
  case mapping to the decoded rune); no theorem below depends on them.
\<close>

definition toLowerByte :: "char \<Rightarrow> char" where
  "toLowerByte c =
     (let n = (of_char c :: nat) in if 65 \<le> n \<and> n \<le> 90 then char_of (n + 32) else c)"

definition ToLower :: "string \<Rightarrow> string" where
  "ToLower s = map toLowerByte s"

text \<open>
  \<^verbatim>\<open>path.Base\<close>: the last element of a slash-separated path. Trailing slashes are
  removed first; the empty path gives \<open>.\<close> and a path of slashes only gives \<open>/\<close>.
\<close>

definition Base :: "string \<Rightarrow> string" where
  "Base path =
     (if path = [] then ''.''
      else let stripped = rev (dropWhile (\<lambda>c. c = CHR ''/'') (rev path));
               elem = rev (takeWhile (\<lambda>c. c \<noteq> CHR ''/'') (rev stripped))
           in if elem = [] then ''/'' else elem)"

text \<open>
  \<^verbatim>\<open>filepath.Clean\<close> on a slash-separated path, by its documented rules: multiple
  slashes become one, \<open>.\<close> elements are dropped, an inner \<open>..\<close> is dropped with the
  element before it, a \<open>..\<close> at the start of a rooted path is dropped; the empty
  result is \<open>.\<close>. \<open>cleanElems\<close> runs through the elements of the path with the
  elements kept so far, last one first.
\<close>

fun cleanElems :: "bool \<Rightarrow> string list \<Rightarrow> string list \<Rightarrow> string list" where
  "cleanElems rooted [] out = out"
| "cleanElems rooted (e # es) out =
     (if e = [] \<or> e = ''.'' then cleanElems rooted es out
      else if e = ''..'' then
        (case out of
           [] \<Rightarrow> if rooted then cleanElems rooted es [] else cleanElems rooted es [e]
         | l # ls \<Rightarrow> if l = ''..'' then cleanElems rooted es (e # out)
                     else cleanElems rooted es ls)
      else cleanElems rooted es (e # out))"

definition Clean :: "string \<Rightarrow> string" where
  "Clean path =
     (if path = [] then ''.''
      else let rooted = (hd path = CHR ''/'');
               out = (if rooted then ''/'' else []) @
                       Join (rev (cleanElems rooted (Split path CHR ''/'') [])) ''/''
           in if out = [] then ''.'' else out)"

text \<open>
  \<^verbatim>\<open>filepath.Join\<close>: the elements from the first non-empty one on, joined with slashes
  and cleaned; the empty string when there is none.
\<close>

definition filepath_Join :: "string list \<Rightarrow> string" where
  "filepath_Join elem =
     (case dropWhile (\<lambda>e. e = []) elem of
        [] \<Rightarrow> []
      | es \<Rightarrow> Clean (Join es ''/''))"

text \<open>\<^verbatim>\<open>filepath.Dir\<close>: the path up to its last slash, cleaned.\<close>

definition Dir :: "string \<Rightarrow> string" where
  "Dir path = Clean (rev (dropWhile (\<lambda>c. c \<noteq> CHR ''/'') (rev path)))"


section \<open>The target parser (\<^verbatim>\<open>get.go\<close>)\<close>

definition isDigit :: "char \<Rightarrow> bool" where
  "isDigit c = (let n = (of_char c :: nat) in 48 \<le> n \<and> n \<le> 57)"

text \<open>
  \<^verbatim>\<open>goModVersionRegexp.MatchString\<close> for the pattern \<^verbatim>\<open>^v[0-9]*$\<close>: the whole string is a
  \<open>v\<close> followed by decimal digits only (in Go's syntax \<^verbatim>\<open>$\<close> is the end of the text).
\<close>

definition goModVersionRegexp :: "string \<Rightarrow> bool" where
  "goModVersionRegexp s =
     (case s of [] \<Rightarrow> False | c # cs \<Rightarrow> c = CHR ''v'' \<and> list_all isDigit cs)"

datatype error =
    TargetEmpty
  | VersionDuplicates "string list"
  | NoneNotAllowed "string list"
  | ParseError
  | ReadError string
  | SliceOutOfRange
  | OSError string
  | ToolchainError string
  | ErrorsNew string
  | EmptyFile
  | NoCachedModule string
  | NoIndirectModule string
  | NoIndirectModuleFor string string
  | FallbackFailed error error
  | Wrap error string
  | NoModule
  | NilDereference
  | BadPattern
  | AmbiguousName string
  | ImpossibleName string
  | NonMain string string
  | UpgradeTakesNoVersion "string list"
  | RenameByPath string
  | RenameTakesNoVersion "string list"
  | NewNameSame string
  | NoneWithNewName
  | CannotDeleteByPath string
  | NothingToDelete string
  | InvalidVersion string
  | InvalidModulePath string
  | PathMajorMismatch string string

text \<open>
  The loop of \<^verbatim>\<open>parseTarget\<close> over the version list: \<open>dup\<close> holds the keys of the map
  of versions seen so far.
\<close>

fun checkVersions :: "string list \<Rightarrow> string list \<Rightarrow> string list \<Rightarrow> error option" where
  "checkVersions versions dup [] = None"
| "checkVersions versions dup (v # vs) =
     (if v \<in> set dup then Some (VersionDuplicates versions)
      else if v = ''none'' then Some (NoneNotAllowed versions)
      else checkVersions versions (v # dup) vs)"

text \<open>The version list of a raw target: the comma-separated section after the first \<open>@\<close>.\<close>

definition targetVersions :: "string \<Rightarrow> string list" where
  "targetVersions rawTarget =
     (let s = Split rawTarget CHR ''@''
      in if length s > 1 then Split (s ! 1) CHR '','' else [[]])"

text \<open>The default name of a tool referenced by its package path.\<close>

definition defaultName :: "string \<Rightarrow> string" where
  "defaultName pkgPath =
     (let name = Base pkgPath; pkgSplit = Split pkgPath CHR ''/''
      in if length pkgSplit > 3 \<and> goModVersionRegexp name
         then pkgSplit ! (length pkgSplit - 2) else name)"

definition parseTarget :: "string \<Rightarrow> error + (string \<times> string \<times> string list)" where
  "parseTarget rawTarget =
     (if rawTarget = [] then Inl TargetEmpty
      else let s = Split rawTarget CHR ''@'';
               nameOrPackage = hd s;
               versions = targetVersions rawTarget
           in case (if length versions > 1 then checkVersions versions [] versions else None) of
                Some e \<Rightarrow> Inl e
              | None \<Rightarrow>
                  if CHR ''/'' \<in> set nameOrPackage
                  then Inr (ToLower (defaultName nameOrPackage), nameOrPackage, versions)
                  else Inr (ToLower nameOrPackage, [], versions))"

section \<open>The manifest store (\<^verbatim>\<open>pkg/bingo/mod.go\<close>)\<close>

text \<open>\<^verbatim>\<open>module.Version\<close>: a module path and a version.\<close>

record module_Version =
  Path :: string
  Version :: string

text \<open>\<^verbatim>\<open>bingo.Package\<close>.\<close>

record Package =
  Module :: module_Version
  RelPath :: string
  BuildEnvs :: "string list"
  BuildFlags :: "string list"

text \<open>
  The loop of \<^verbatim>\<open>parseDirectPackageMeta\<close> over the space-separated elements of the
  comment: empty elements are skipped, the first element that starts with \<open>-\<close> makes
  it and everything after it the build flags, an element without \<open>=\<close> is the relative
  path (a later one replaces an earlier one), any other element is an environment
  variable.
\<close>

fun parseMetaLoop ::
  "string list \<Rightarrow> string \<Rightarrow> string list \<Rightarrow> string \<times> string list \<times> string list" where
  "parseMetaLoop [] relPath buildEnv = (relPath, buildEnv, [])"
| "parseMetaLoop (l # ls) relPath buildEnv =
     (if l = [] then parseMetaLoop ls relPath buildEnv
      else if hd l = CHR ''-'' then (relPath, buildEnv, l # ls)
      else if CHR ''='' \<notin> set l then parseMetaLoop ls l buildEnv
      else parseMetaLoop ls relPath (buildEnv @ [l]))"

definition parseDirectPackageMeta :: "string \<Rightarrow> string \<times> string list \<times> string list" where
  "parseDirectPackageMeta line = parseMetaLoop (Split line CHR '' '') [] []"

text \<open>
  The syntax tree of a module file, as far as the sources read and write it
  (\<^verbatim>\<open>modfile.File\<close> of \<^verbatim>\<open>golang.org/x/mod\<close>): the comments at the end of the module
  line (\<open>None\<close> when the file has no module statement), the require lines with the
  comments at their ends (\<^verbatim>\<open>r.Syntax.Suffix\<close>), the replace directives, and the tokens of
  all other comments.
\<close>

record modfile_Require =
  Mod :: module_Version
  Indirect :: bool
  Suffix :: "string list"

record modfile_Replace =
  Old :: module_Version
  New :: module_Version

record modfile_File =
  ModuleStmt :: "string list option"
  Require :: "modfile_Require list"
  Replace :: "modfile_Replace list"
  Comments :: "string list"

text \<open>
  \<^verbatim>\<open>strings.TrimSpace\<close> and \<^verbatim>\<open>strings.Fields\<close> on the white space of ASCII (tab, line
  feed, vertical tab, form feed, carriage return, space).
\<close>

definition isSpace :: "char \<Rightarrow> bool" where
  "isSpace c = (let n = (of_char c :: nat) in (9 \<le> n \<and> n \<le> 13) \<or> n = 32)"

definition TrimSpace :: "string \<Rightarrow> string" where
  "TrimSpace s = rev (dropWhile isSpace (rev (dropWhile isSpace s)))"

fun fieldsFrom :: "string \<Rightarrow> string \<Rightarrow> string list" where
  "fieldsFrom cur [] = (if cur = [] then [] else [rev cur])"
| "fieldsFrom cur (c # cs) =
     (if isSpace c then (if cur = [] then fieldsFrom [] cs else rev cur # fieldsFrom [] cs)
      else fieldsFrom (c # cur) cs)"

definition Fields :: "string \<Rightarrow> string list" where
  "Fields s = fieldsFrom [] s"

text \<open>
  Semantic versions as \<^verbatim>\<open>golang.org/x/mod/semver\<close> reads them. \<open>semverParseInt\<close> takes a
  decimal number without leading zero from the front of a string; a pre-release
  starts with \<open>-\<close> and runs up to the first \<open>+\<close>, build metadata starts with \<open>+\<close> and
  runs to the end; both are dot-separated non-empty identifiers of letters, digits
  and \<open>-\<close>, and a numeric identifier of a pre-release has no leading zero.
\<close>

definition semverParseInt :: "string \<Rightarrow> (string \<times> string) option" where
  "semverParseInt v =
     (case v of
        [] \<Rightarrow> None
      | c # _ \<Rightarrow>
          if \<not> isDigit c then None
          else let t = takeWhile isDigit v
               in if c = CHR ''0'' \<and> length t \<noteq> 1 then None
                  else Some (t, dropWhile isDigit v))"

definition isIdentChar :: "char \<Rightarrow> bool" where
  "isIdentChar c =
     (let n = (of_char c :: nat)
      in (65 \<le> n \<and> n \<le> 90) \<or> (97 \<le> n \<and> n \<le> 122) \<or> (48 \<le> n \<and> n \<le> 57) \<or> c = CHR ''-'')"

definition isBadNum :: "string \<Rightarrow> bool" where
  "isBadNum v = (list_all isDigit v \<and> length v > 1 \<and> hd v = CHR ''0'')"

definition semverPrerelease :: "string \<Rightarrow> (string \<times> string) option" where
  "semverPrerelease v =
     (let body = takeWhile (\<lambda>c. c \<noteq> CHR ''+'') (tl v);
          rest = dropWhile (\<lambda>c. c \<noteq> CHR ''+'') (tl v)
      in if list_all (\<lambda>c. isIdentChar c \<or> c = CHR ''.'') body
            \<and> list_all (\<lambda>x. x \<noteq> [] \<and> \<not> isBadNum x) (Split body CHR ''.'')
         then Some (CHR ''-'' # body, rest) else None)"

definition semverBuild :: "string \<Rightarrow> (string \<times> string) option" where
  "semverBuild v =
     (let body = tl v
      in if list_all (\<lambda>c. isIdentChar c \<or> c = CHR ''.'') body
            \<and> list_all (\<lambda>x. x \<noteq> []) (Split body CHR ''.'')
         then Some (CHR ''+'' # body, []) else None)"

text \<open>
  \<^verbatim>\<open>semver.parse\<close>: the major number, the suffix that completes a shortened version
  (\<open>.0.0\<close> after \<open>vMAJOR\<close>, \<open>.0\<close> after \<open>vMAJOR.MINOR\<close>) and the build metadata;
  \<open>None\<close> for a string that is not a semantic version.
\<close>

definition semverParse :: "string \<Rightarrow> (string \<times> string \<times> string) option" where
  "semverParse v =
     (case v of
        [] \<Rightarrow> None
      | c # v1 \<Rightarrow>
          if c \<noteq> CHR ''v'' then None
          else (case semverParseInt v1 of
             None \<Rightarrow> None
           | Some (major, v2) \<Rightarrow>
               if v2 = [] then Some (major, ''.0.0'', [])
               else if hd v2 \<noteq> CHR ''.'' then None
               else (case semverParseInt (tl v2) of
                  None \<Rightarrow> None
                | Some (minor, v3) \<Rightarrow>
                    if v3 = [] then Some (major, ''.0'', [])
                    else if hd v3 \<noteq> CHR ''.'' then None
                    else (case semverParseInt (tl v3) of
                       None \<Rightarrow> None
                     | Some (patch, v4) \<Rightarrow>
                         (case (if v4 \<noteq> [] \<and> hd v4 = CHR ''-''
                                then map_option snd (semverPrerelease v4) else Some v4) of
                            None \<Rightarrow> None
                          | Some v5 \<Rightarrow>
                              if v5 \<noteq> [] \<and> hd v5 = CHR ''+''
                              then (case semverBuild v5 of
                                      None \<Rightarrow> None
                                    | Some (b, v6) \<Rightarrow>
                                        if v6 = [] then Some (major, [], b) else None)
                              else if v5 = [] then Some (major, [], []) else None)))))"

text \<open>
  \<^verbatim>\<open>semver.Canonical\<close> (missing minor and patch numbers filled in, build metadata
  dropped, the empty string for an invalid version), \<^verbatim>\<open>semver.Build\<close>,
  \<^verbatim>\<open>semver.Major\<close>, and \<^verbatim>\<open>module.CanonicalVersion\<close>, which keeps the build metadata
  \<open>+incompatible\<close>.
\<close>

definition semverCanonical :: "string \<Rightarrow> string" where
  "semverCanonical v =
     (case semverParse v of
        None \<Rightarrow> []
      | Some (major, short, build) \<Rightarrow>
          if build \<noteq> [] then take (length v - length build) v
          else if short \<noteq> [] then v @ short
          else v)"

definition semverBuildOf :: "string \<Rightarrow> string" where
  "semverBuildOf v = (case semverParse v of None \<Rightarrow> [] | Some (major, short, build) \<Rightarrow> build)"

definition semverMajor :: "string \<Rightarrow> string" where
  "semverMajor v =
     (case semverParse v of None \<Rightarrow> [] | Some (major, short, build) \<Rightarrow> CHR ''v'' # major)"

definition CanonicalVersion :: "string \<Rightarrow> string" where
  "CanonicalVersion v =
     (let cv = semverCanonical v
      in if semverBuildOf v = ''+incompatible'' then cv @ ''+incompatible'' else cv)"

text \<open>
  \<^verbatim>\<open>module.SplitPathVersion\<close>: the major-version suffix of a module path (\<open>/vN\<close> with
  \<open>N\<close> at least 2, or \<open>.vN\<close> for a path under \<open>gopkg.in/\<close>) and whether the path is
  well-formed in that respect. The result is the prefix, the suffix and the flag.
\<close>

definition splitGopkgIn :: "string \<Rightarrow> string \<times> string \<times> bool" where
  "splitGopkgIn path =
     (let i0 = (if HasSuffix path ''-unstable'' then length path - 9 else length path);
          i = i0 - length (takeWhile isDigit (rev (take i0 path)))
      in if i \<le> 1 \<or> path ! (i - 1) \<noteq> CHR ''v'' \<or> path ! (i - 2) \<noteq> CHR ''.''
         then (path, [], False)
         else let pathMajor = drop (i - 2) path
              in if length pathMajor \<le> 2 \<or> (pathMajor ! 2 = CHR ''0'' \<and> pathMajor \<noteq> ''.v0'')
                 then (path, [], False)
                 else (take (i - 2) path, pathMajor, True))"

definition SplitPathVersion :: "string \<Rightarrow> string \<times> string \<times> bool" where
  "SplitPathVersion path =
     (if HasPrefix path ''gopkg.in/'' then splitGopkgIn path
      else let digits = takeWhile (\<lambda>c. isDigit c \<or> c = CHR ''.'') (rev path);
               i = length path - length digits;
               dot = (CHR ''.'' \<in> set digits)
           in if i \<le> 1 \<or> i = length path \<or> path ! (i - 1) \<noteq> CHR ''v''
                 \<or> path ! (i - 2) \<noteq> CHR ''/''
              then (path, [], True)
              else let pathMajor = drop (i - 2) path
                   in if dot \<or> length pathMajor \<le> 2 \<or> pathMajor ! 2 = CHR ''0''
                         \<or> pathMajor = ''/v1''
                      then (path, [], False)
                      else (take (i - 2) path, pathMajor, True))"

text \<open>
  \<^verbatim>\<open>module.CheckPathMajor\<close>, \<open>True\<close> when it returns no error: the major version of
  \<open>v\<close> is the one the suffix of the path names, and \<open>v0\<close>, \<open>v1\<close> or an
  \<open>+incompatible\<close> version for a path without suffix.
\<close>

definition CheckPathMajor :: "string \<Rightarrow> string \<Rightarrow> bool" where
  "CheckPathMajor v pathMajor0 =
     (let pathMajor = (if HasPrefix pathMajor0 ''.v'' \<and> HasSuffix pathMajor0 ''-unstable''
                       then TrimSuffix pathMajor0 ''-unstable'' else pathMajor0)
      in if HasPrefix v ''v0.0.0-'' \<and> pathMajor = ''.v1'' then True
         else if pathMajor = []
         then semverMajor v = ''v0'' \<or> semverMajor v = ''v1''
              \<or> semverBuildOf v = ''+incompatible''
         else if hd pathMajor = CHR ''/'' \<or> hd pathMajor = CHR ''.''
         then semverMajor v = tl pathMajor
         else False)"

text \<open>
  \<^verbatim>\<open>isIndirect\<close> of \<^verbatim>\<open>modfile\<close>: a require line is indirect when the comment at its end
  is \<open>// indirect\<close>, or starts with \<open>// indirect;\<close> and goes on.
\<close>

definition isIndirect :: "string list \<Rightarrow> bool" where
  "isIndirect suffix =
     (case suffix of
        [] \<Rightarrow> False
      | tok # _ \<Rightarrow>
          let fl = Fields (TrimPrefix tok ''//'')
          in (length fl = 1 \<and> hd fl = ''indirect'') \<or> (length fl > 1 \<and> hd fl = ''indirect;''))"

text \<open>
  What \<^verbatim>\<open>modfile.Parse\<close> (without a version fixer) reads from a require line that
  \<^verbatim>\<open>modfile.Format\<close> printed: the version is made canonical and must be a semantic
  version that fits the major-version suffix of the path; the indirect mark is read
  from the comment at the end of the line, which \<^verbatim>\<open>Format\<close> prints without white space
  around it. The quoting of a module path that is not a plain token is not modelled.
\<close>

definition parseRequire :: "modfile_Require \<Rightarrow> error + modfile_Require" where
  "parseRequire r =
     (let path = Path (Mod r); v = CanonicalVersion (Version (Mod r))
      in if v = [] then Inl (InvalidVersion (Version (Mod r)))
         else (case SplitPathVersion path of
                 (prefix, pathMajor, ok) \<Rightarrow>
                   if \<not> ok then Inl (InvalidModulePath path)
                   else if \<not> CheckPathMajor v pathMajor then Inl (PathMajorMismatch path v)
                   else let suffix = map TrimSpace (Suffix r)
                        in Inr \<lparr>Mod = \<lparr>Path = path, Version = v\<rparr>,
                                Indirect = isIndirect suffix, Suffix = suffix\<rparr>))"

fun parseRequires :: "modfile_Require list \<Rightarrow> error + modfile_Require list" where
  "parseRequires [] = Inr []"
| "parseRequires (r # rs) =
     (case parseRequire r of
        Inl e \<Rightarrow> Inl e
      | Inr r' \<Rightarrow> (case parseRequires rs of Inl e \<Rightarrow> Inl e | Inr rs' \<Rightarrow> Inr (r' # rs')))"

text \<open>
  \<^verbatim>\<open>modfile.Parse\<close> on the bytes that \<^verbatim>\<open>modfile.Format\<close> printed for a syntax tree. The
  module statement, the replace directives and the free comments are taken as they
  are: the checks of \<^verbatim>\<open>modfile.Parse\<close> on a replace directive are not modelled.
\<close>

definition modfileParse :: "modfile_File \<Rightarrow> error + modfile_File" where
  "modfileParse t =
     (case parseRequires (Require t) of
        Inl e \<Rightarrow> Inl e
      | Inr rs \<Rightarrow> Inr (t\<lparr>Require := rs\<rparr>))"

text \<open>
  Files. A manifest is held as the syntax tree that \<^verbatim>\<open>modfile.Format\<close> printed into it
  (\<open>Manifest\<close>); reading it back is \<open>modfileParse\<close> on that tree. Every other content
  is a \<open>Blob\<close>, which \<^verbatim>\<open>modfile.Parse\<close> rejects. An open file (\<^verbatim>\<open>*os.File\<close>) is the inode
  it was opened on: reads and writes through it reach that inode whatever its name is
  by then. The pin directory \<open>pin\<close> maps entry names to inodes (tool names have no
  path separator, so every file the sources name there is an entry of the directory
  itself); \<open>nextInode\<close> is the next unused inode. The install directory \<open>bin\<close> maps
  entry names to a built binary (with the package it was built from) or a symbolic
  link (with its target). Errors of the operating system on these two directories are
  not modelled.
\<close>

type_synonym inode = nat

datatype content = Manifest modfile_File | Blob string

datatype binfile = Binary string | Symlink string

record fsys =
  pin :: "(string \<times> inode) list"
  store :: "inode \<Rightarrow> content"
  nextInode :: inode
  bin :: "(string \<times> binfile) list"

text \<open>\<^verbatim>\<open>bingo.ModFile\<close>.\<close>

record ModFile =
  filename :: string
  f :: inode
  m :: modfile_File
  directPackage :: "Package option"
  autoReplaceDisabled :: bool

definition NoReplaceCommand :: string where
  "NoReplaceCommand = ''bingo:no_replace_fetch''"

text \<open>\<^verbatim>\<open>strings.Contains\<close>.\<close>

fun Contains :: "string \<Rightarrow> string \<Rightarrow> bool" where
  "Contains [] sub = (sub = [])"
| "Contains (c # cs) sub = (HasPrefix (c # cs) sub \<or> Contains cs sub)"

text \<open>The comment tokens that \<^verbatim>\<open>Reload\<close> searches for the no-replace command.\<close>

definition stmtComments :: "modfile_File \<Rightarrow> string list" where
  "stmtComments parsed =
     Comments parsed @ (case ModuleStmt parsed of None \<Rightarrow> [] | Some cs \<Rightarrow> cs)
       @ concat (map Suffix (Require parsed))"

definition dropAllRequire :: "modfile_File \<Rightarrow> modfile_File" where
  "dropAllRequire mm = mm\<lparr>Require := []\<rparr>"

text \<open>
  The list \<^verbatim>\<open>meta\<close> that \<^verbatim>\<open>SetDirectRequire\<close> joins with spaces into the comment of the
  require line: the relative path unless it is empty or \<open>.\<close>, then the build
  environment, then the build flags.
\<close>

definition directMeta :: "Package \<Rightarrow> string list" where
  "directMeta target =
     (if RelPath target \<noteq> [] \<and> RelPath target \<noteq> ''.'' then [RelPath target] else [])
       @ BuildEnvs target @ BuildFlags target"

text \<open>\<^verbatim>\<open>SetDirectRequire\<close> (its error result is always nil).\<close>

definition SetDirectRequire :: "ModFile \<Rightarrow> Package \<Rightarrow> ModFile" where
  "SetDirectRequire mf target =
     (let meta = directMeta target;
          r = \<lparr>Mod = Module target, Indirect = False,
               Suffix = (if meta \<noteq> [] then [''// '' @ Join meta '' ''] else [])\<rparr>
      in mf\<lparr>m := (dropAllRequire (m mf))\<lparr>Require := [r]\<rparr>, directPackage := Some target\<rparr>)"

text \<open>
  The direct package that \<^verbatim>\<open>Reload\<close> reads from the first require line that is not
  indirect. The slice \<^verbatim>\<open>Token[3:]\<close> panics on a token shorter than three bytes.
\<close>

definition firstDirect :: "modfile_Require list \<Rightarrow> error + Package option" where
  "firstDirect rs =
     (case filter (\<lambda>r. \<not> Indirect r) rs of
        [] \<Rightarrow> Inr None
      | r # _ \<Rightarrow>
          (case Suffix r of
             [] \<Rightarrow> Inr (Some \<lparr>Module = Mod r, RelPath = [], BuildEnvs = [], BuildFlags = []\<rparr>)
           | tok # _ \<Rightarrow>
               if length tok < 3 then Inl SliceOutOfRange
               else (case parseDirectPackageMeta (Trim (drop 3 tok) (CHR 0x0A)) of
                       (relPath, buildEnv, buildFlags) \<Rightarrow>
                         Inr (Some \<lparr>Module = Mod r, RelPath = relPath,
                                    BuildEnvs = buildEnv, BuildFlags = buildFlags\<rparr>))))"

text \<open>
  \<^verbatim>\<open>Reload\<close>: parse the open file again and rebuild the fields of the \<^verbatim>\<open>ModFile\<close>.
\<close>

definition Reload :: "fsys \<Rightarrow> ModFile \<Rightarrow> error + ModFile" where
  "Reload fs mf =
     (case store fs (f mf) of
        Blob _ \<Rightarrow> Inl ParseError
      | Manifest written \<Rightarrow>
          (case modfileParse written of
             Inl e \<Rightarrow> Inl (Wrap e ''parse'')
           | Inr parsed \<Rightarrow>
               (case firstDirect (Require parsed) of
                  Inl e \<Rightarrow> Inl e
                | Inr dp \<Rightarrow>
                    let mf' = mf\<lparr>m := dropAllRequire parsed, directPackage := dp,
                                  autoReplaceDisabled :=
                                    list_ex (\<lambda>c. Contains c NoReplaceCommand) (stmtComments parsed)\<rparr>
                    in (case dp of None \<Rightarrow> Inr mf' | Some p \<Rightarrow> Inr (SetDirectRequire mf' p)))))"

text \<open>
  \<^verbatim>\<open>Flush\<close>: format the syntax tree, overwrite the open file with it, reload. The file
  is written also when the reload fails, so the file system is returned beside the
  result.
\<close>

definition Flush :: "fsys \<Rightarrow> ModFile \<Rightarrow> (error + ModFile) \<times> fsys" where
  "Flush fs mf =
     (let fs' = fs\<lparr>store := (store fs)(f mf := Manifest (m mf))\<rparr>
      in (Reload fs' mf, fs'))"

definition DirectPackage :: "ModFile \<Rightarrow> Package option" where
  "DirectPackage mf = directPackage mf"

text \<open>
  Files of the pin directory by name: reading, writing (the file is created when it
  is not there, as \<^verbatim>\<open>os.Create\<close> does), \<^verbatim>\<open>os.RemoveAll\<close> and \<^verbatim>\<open>os.Rename\<close>.
\<close>

definition readName :: "fsys \<Rightarrow> string \<Rightarrow> content option" where
  "readName fs name = map_option (store fs) (map_of (pin fs) name)"

definition writeFile :: "fsys \<Rightarrow> string \<Rightarrow> content \<Rightarrow> fsys" where
  "writeFile fs name c =
     (case map_of (pin fs) name of
        Some i \<Rightarrow> fs\<lparr>store := (store fs)(i := c)\<rparr>
      | None \<Rightarrow> fs\<lparr>pin := pin fs @ [(name, nextInode fs)],
                    store := (store fs)(nextInode fs := c),
                    nextInode := Suc (nextInode fs)\<rparr>)"

definition removeName :: "fsys \<Rightarrow> string \<Rightarrow> fsys" where
  "removeName fs name = fs\<lparr>pin := filter (\<lambda>e. fst e \<noteq> name) (pin fs)\<rparr>"

definition renameFile :: "fsys \<Rightarrow> string \<Rightarrow> string \<Rightarrow> error + fsys" where
  "renameFile fs oldName newName =
     (case map_of (pin fs) oldName of
        None \<Rightarrow> Inl (OSError oldName)
      | Some i \<Rightarrow>
          Inr (fs\<lparr>pin := filter (\<lambda>e. fst e \<noteq> oldName \<and> fst e \<noteq> newName) (pin fs)
                           @ [(newName, i)]\<rparr>))"

text \<open>
  \<^verbatim>\<open>ParseModFileOrReader\<close> on a file name and \<^verbatim>\<open>ModIndirectModules\<close>: the modules of
  the require lines marked indirect.
\<close>

definition ModIndirectModules :: "fsys \<Rightarrow> string \<Rightarrow> error + module_Version list" where
  "ModIndirectModules fs modFile =
     (case readName fs modFile of
        None \<Rightarrow> Inl (ReadError modFile)
      | Some (Blob b) \<Rightarrow> Inl ParseError
      | Some (Manifest written) \<Rightarrow>
          (case modfileParse written of
             Inl e \<Rightarrow> Inl (Wrap e ''parse'')
           | Inr parsed \<Rightarrow> Inr (map Mod (filter Indirect (Require parsed)))))"

text \<open>
  The records whose structured comment decodes to what was encoded: every element
  written into the comment is a non-empty token of printable ASCII characters other
  than the space; the relative path does not start with \<open>-\<close>, has no \<open>=\<close> and is not
  \<open>.\<close>; every environment entry has a \<open>=\<close> and does not start with \<open>-\<close>; the first
  build flag, if any, starts with \<open>-\<close>.
\<close>

definition printable :: "char \<Rightarrow> bool" where
  "printable c = (let n = (of_char c :: nat) in 33 \<le> n \<and> n \<le> 126)"

definition metaToken :: "string \<Rightarrow> bool" where
  "metaToken s = (s \<noteq> [] \<and> list_all printable s)"

definition envToken :: "string \<Rightarrow> bool" where
  "envToken s = (metaToken s \<and> hd s \<noteq> CHR ''-'' \<and> CHR ''='' \<in> set s)"

definition relPathToken :: "string \<Rightarrow> bool" where
  "relPathToken s = (metaToken s \<and> hd s \<noteq> CHR ''-'' \<and> CHR ''='' \<notin> set s \<and> s \<noteq> ''.'')"

definition flagTokens :: "string list \<Rightarrow> bool" where
  "flagTokens fl =
     (list_all metaToken fl \<and> (case fl of [] \<Rightarrow> True | x # _ \<Rightarrow> hd x = CHR ''-''))"

definition wellFormedMeta :: "Package \<Rightarrow> bool" where
  "wellFormedMeta r =
     ((RelPath r = [] \<or> relPathToken (RelPath r))
      \<and> list_all envToken (BuildEnvs r) \<and> flagTokens (BuildFlags r))"

text \<open>
  The elements that make the comment of a require line the indirect mark of
  \<^verbatim>\<open>modfile\<close>: the single element \<open>indirect\<close>, or \<open>indirect;\<close> followed by more.
\<close>

definition indirectMarker :: "string list \<Rightarrow> bool" where
  "indirectMarker meta =
     (meta = [''indirect''] \<or> (length meta > 1 \<and> hd meta = ''indirect;''))"

text \<open>
  The module coordinates that \<^verbatim>\<open>modfile.Parse\<close> accepts on a require line: the path is
  not empty and made of the characters of module paths (letters, digits, \<open>-\<close>, \<open>.\<close>,
  \<open>_\<close>, \<open>~\<close> and \<open>/\<close>), the version is a semantic version, and its major version fits
  the major-version suffix of the path.
\<close>

definition modulePathChar :: "char \<Rightarrow> bool" where
  "modulePathChar c =
     (let n = (of_char c :: nat)
      in (65 \<le> n \<and> n \<le> 90) \<or> (97 \<le> n \<and> n \<le> 122) \<or> (48 \<le> n \<and> n \<le> 57)
         \<or> c \<in> set ''-._~/'')"

definition acceptedModule :: "module_Version \<Rightarrow> bool" where
  "acceptedModule mv =
     (Path mv \<noteq> [] \<and> list_all modulePathChar (Path mv)
      \<and> CanonicalVersion (Version mv) \<noteq> []
      \<and> (case SplitPathVersion (Path mv) of
            (prefix, pathMajor, ok) \<Rightarrow>
              ok \<and> CheckPathMajor (CanonicalVersion (Version mv)) pathMajor))"

text \<open>An open manifest and a package record for the examples.\<close>

definition exampleFS :: fsys where
  "exampleFS = \<lparr>pin = [(''foo.mod'', 0)], store = (\<lambda>_. Blob []), nextInode = 1, bin = []\<rparr>"

definition exampleModFile :: ModFile where
  "exampleModFile = \<lparr>filename = ''foo.mod'', f = 0,
      m = \<lparr>ModuleStmt = Some [], Require = [], Replace = [], Comments = []\<rparr>,
      directPackage = None, autoReplaceDisabled = False\<rparr>"

definition examplePackage :: Package where
  "examplePackage =
     \<lparr>Module = \<lparr>Path = ''github.com/a/b'', Version = ''v1.0.0''\<rparr>, RelPath = ''cmd/tool'',
      BuildEnvs = [''CGO_ENABLED=0''], BuildFlags = [''-tags'', ''netgo'']\<rparr>"

section \<open>Version resolution (\<^verbatim>\<open>get.go\<close>)\<close>

text \<open>\<^verbatim>\<open>Package.Path\<close> and \<^verbatim>\<open>Package.String\<close>.\<close>

definition PackagePath :: "Package \<Rightarrow> string" where
  "PackagePath p = filepath_Join [Path (Module p), RelPath p]"

definition PackageString :: "Package \<Rightarrow> string" where
  "PackageString p =
     (if Version (Module p) = [] then PackagePath p
      else PackagePath p @ ''@'' @ Version (Module p))"

text \<open>
  Modelled from the spec: the type \<^verbatim>\<open>runner.GetUpdatePolicy\<close> is declared outside the
  sources, which only compare its values with \<^verbatim>\<open>runner.NoUpdatePolicy\<close>; the other two
  values stand for the update toggles of the command line.
\<close>

datatype GetUpdatePolicy = NoUpdatePolicy | UpdatePolicy | UpdatePatchPolicy

text \<open>
  The host as the resolution reads it: environment variables and the files of the
  module download cache. \<open>Stat\<close> is \<^verbatim>\<open>os.Stat\<close> (the file is there, is not there, or
  another error), \<open>ReadLines\<close> is \<^verbatim>\<open>os.Open\<close> followed by a \<^verbatim>\<open>bufio.Scanner\<close> over
  the lines of the file, \<open>ReadDir\<close> is \<^verbatim>\<open>ioutil.ReadDir\<close> with the name of each entry
  and whether it is a directory, \<open>ReadModFile\<close> parses the module file at a path.
\<close>

datatype stat_result = StatOK | StatNotExist | StatFailed

record host =
  Getenv :: "string \<Rightarrow> string"
  Stat :: "string \<Rightarrow> stat_result"
  ReadLines :: "string \<Rightarrow> error + string list"
  ReadDir :: "string \<Rightarrow> error + (string \<times> bool) list"
  ReadModFile :: "string \<Rightarrow> error + modfile_File"

definition gomodcache :: "host \<Rightarrow> string" where
  "gomodcache h =
     (let cachepath = Getenv h ''GOMODCACHE''; gpath = Getenv h ''GOPATH''
      in if gpath \<noteq> [] \<and> cachepath = [] then filepath_Join [gpath, ''pkg/mod''] else cachepath)"

definition latestModVersion :: "host \<Rightarrow> string \<Rightarrow> error + string" where
  "latestModVersion h listFile =
     (case ReadLines h listFile of
        Inl e \<Rightarrow> Inl e
      | Inr scanned \<Rightarrow>
          let lastVersion = foldl (\<lambda>_ l. l) [] scanned
          in if lastVersion = [] then Inl EmptyFile else Inr lastVersion)"

text \<open>
  The test of the scan over the directory entries: the entry is not a directory, the
  requested version has more than 12 bytes and the name of the entry ends with the
  first 12 bytes of the version followed by \<open>.info\<close>.
\<close>

definition revisionInfo :: "string \<Rightarrow> string \<times> bool \<Rightarrow> bool" where
  "revisionInfo version entry =
     (case entry of (name, isDir) \<Rightarrow>
        \<not> isDir \<and> length version > 12 \<and> HasSuffix name (take 12 version @ ''.info''))"

text \<open>
  The body of the loop of \<^verbatim>\<open>resolveInGoModCache\<close> for one candidate module path:
  \<open>None\<close> when the loop goes on with the next candidate, \<open>Some\<close> of the result when
  the function returns. The last branch is the verbose log line, whose slice
  \<^verbatim>\<open>Version[:12]\<close> panics on a version shorter than 12 bytes.
\<close>

definition probeCandidate ::
  "host \<Rightarrow> string \<Rightarrow> bool \<Rightarrow> GetUpdatePolicy \<Rightarrow> Package \<Rightarrow> string \<Rightarrow> (error + Package) option" where
  "probeCandidate h modMetaCache verbose update target modulePath =
     (let modMetaDir = filepath_Join [modMetaCache, modulePath, ''@v''];
          version = Version (Module target);
          relPath = TrimPrefix (TrimPrefix (RelPath target) modulePath) ''/''
      in case Stat h modMetaDir of
           StatNotExist \<Rightarrow> None
         | StatFailed \<Rightarrow> Some (Inl (OSError modMetaDir))
         | StatOK \<Rightarrow>
             if update \<noteq> NoUpdatePolicy \<or> version = [] then
               (case latestModVersion h (filepath_Join [modMetaDir, ''list'']) of
                  Inl e \<Rightarrow> Some (Inl (Wrap e ''get latest version''))
                | Inr latest \<Rightarrow>
                    Some (Inr (target\<lparr>Module := \<lparr>Path = modulePath, Version = latest\<rparr>,
                                     RelPath := relPath\<rparr>)))
             else if HasPrefix version ''v'' then
               (case Stat h (filepath_Join [modMetaDir, version @ ''.info'']) of
                  StatNotExist \<Rightarrow> None
                | StatFailed \<Rightarrow> Some (Inl (OSError (filepath_Join [modMetaDir, version @ ''.info''])))
                | StatOK \<Rightarrow>
                    Some (Inr (target\<lparr>Module := \<lparr>Path = modulePath, Version = version\<rparr>,
                                     RelPath := relPath\<rparr>)))
             else
               (case ReadDir h modMetaDir of
                  Inl e \<Rightarrow> Some (Inl e)
                | Inr files \<Rightarrow>
                    (case find (revisionInfo version) files of
                       Some (name, isDir) \<Rightarrow>
                         Some (Inr (target\<lparr>Module := \<lparr>Path = modulePath,
                                                        Version = TrimSuffix name ''.info''\<rparr>,
                                          RelPath := relPath\<rparr>))
                     | None \<Rightarrow>
                         if verbose \<and> length version < 12 then Some (Inl SliceOutOfRange)
                         else None)))"

text \<open>
  The loop of \<^verbatim>\<open>resolveInGoModCache\<close>: it runs while the candidate has more than two
  slash-separated segments and goes from a candidate to its \<^verbatim>\<open>filepath.Dir\<close>.
\<close>

function resolveLoop ::
  "host \<Rightarrow> string \<Rightarrow> bool \<Rightarrow> GetUpdatePolicy \<Rightarrow> Package \<Rightarrow> string \<Rightarrow> error + Package" where
  "resolveLoop h modMetaCache verbose update target modulePath =
     (if length (Split modulePath CHR ''/'') > 2 then
        (case probeCandidate h modMetaCache verbose update target modulePath of
           Some r \<Rightarrow> r
         | None \<Rightarrow> resolveLoop h modMetaCache verbose update target (Dir modulePath))
      else Inl (NoCachedModule (PackagePath target)))"
  by pat_completeness auto

definition resolveInGoModCache ::
  "host \<Rightarrow> bool \<Rightarrow> GetUpdatePolicy \<Rightarrow> Package \<Rightarrow> error + Package" where
  "resolveInGoModCache h verbose update target =
     resolveLoop h (filepath_Join [gomodcache h, ''cache/download'']) verbose update target
       (PackagePath target)"

text \<open>
  The package toolchain is an opaque collaborator (\<^verbatim>\<open>runner.Runner\<close>, outside the
  sources); its answers are parameters. \<open>GetD\<close> and \<open>List\<close> are given the arguments
  and the content of the module file they run on (\<open>None\<close> when it is not there), and
  return their output, their error and what they write into that module file
  (\<open>None\<close> when they leave it alone). \<open>ModInit\<close> and \<open>Build\<close> return their error;
  \<open>GoEnv\<close> returns the value of a variable of the toolchain's environment.
\<close>

record toolchain =
  ModInit :: "string \<Rightarrow> error option"
  GetD :: "GetUpdatePolicy \<Rightarrow> string \<Rightarrow> content option \<Rightarrow> (string \<times> error option) \<times> content option"
  GoEnv :: "string \<Rightarrow> error + string"
  List :: "string list \<Rightarrow> content option \<Rightarrow> (string \<times> error option) \<times> content option"
  Build :: "string \<Rightarrow> string \<Rightarrow> string list \<Rightarrow> string list \<Rightarrow> error option"

definition toolWrite :: "fsys \<Rightarrow> string \<Rightarrow> content option \<Rightarrow> fsys" where
  "toolWrite fs name w = (case w of None \<Rightarrow> fs | Some c \<Rightarrow> writeFile fs name c)"

text \<open>
  \<^verbatim>\<open>resolvePackage\<close>. The target is updated through a pointer in the source; here the
  updated target is the result. \<open>acceptModule\<close> is the assignment of a module found in
  the disposable manifest, \<open>cacheFallback\<close> the call of the cache prober with its error
  wrapped together with the toolchain's error.
\<close>

definition acceptModule :: "Package \<Rightarrow> module_Version \<Rightarrow> Package" where
  "acceptModule target mv =
     target\<lparr>RelPath := TrimPrefix (TrimPrefix (RelPath target) (Path mv)) ''/'', Module := mv\<rparr>"

definition cacheFallback ::
  "host \<Rightarrow> bool \<Rightarrow> GetUpdatePolicy \<Rightarrow> Package \<Rightarrow> error \<Rightarrow> error + Package" where
  "cacheFallback h verbose update target gerr =
     (case resolveInGoModCache h verbose update target of
        Inl e \<Rightarrow> Inl (FallbackFailed e gerr)
      | Inr t \<Rightarrow> Inr t)"

definition resolvePackage ::
  "toolchain \<Rightarrow> host \<Rightarrow> fsys \<Rightarrow> bool \<Rightarrow> string \<Rightarrow> GetUpdatePolicy \<Rightarrow> Package
     \<Rightarrow> (error + Package) \<times> fsys" where
  "resolvePackage tc h fs verbose tmpModFile update target =
     (case GetD tc update (PackageString target) (readName fs tmpModFile) of
        ((out, gerr), w) \<Rightarrow>
          let fs1 = toolWrite fs tmpModFile w
          in (case gerr of
                Some ge \<Rightarrow> (cacheFallback h verbose update target ge, fs1)
              | None \<Rightarrow>
                  (case ModIndirectModules fs1 tmpModFile of
                     Inl e \<Rightarrow> (Inl e, fs1)
                   | Inr mods \<Rightarrow>
                       (case mods of
                          [] \<Rightarrow> (Inl (NoIndirectModule tmpModFile), fs1)
                        | [mv] \<Rightarrow> (Inr (acceptModule target mv), fs1)
                        | _ \<Rightarrow>
                            if Path (Module target) \<noteq> [] then
                              (case find (\<lambda>mv. Path mv = Path (Module target)) mods of
                                 Some mv \<Rightarrow> (Inr (acceptModule target mv), fs1)
                               | None \<Rightarrow>
                                   (Inl (NoIndirectModuleFor tmpModFile (Path (Module target))), fs1))
                            else
                              (case find (\<lambda>mv. Path mv = PackagePath target) mods of
                                 Some mv \<Rightarrow> (Inr (acceptModule target mv), fs1)
                               | None \<Rightarrow>
                                   (cacheFallback h verbose update target (ErrorsNew out), fs1))))))"

text \<open>
  A toolchain for the examples: \<open>GetD\<close> succeeds with the output \<open>out\<close> and leaves
  the given indirect requirements in the module file; \<open>List\<close> prints \<open>kind\<close>;
  \<open>Build\<close> returns \<open>buildError\<close>.
\<close>

definition exampleToolchain ::
  "string \<Rightarrow> module_Version list \<Rightarrow> string \<Rightarrow> error option \<Rightarrow> toolchain" where
  "exampleToolchain out mods kind buildError =
     \<lparr>ModInit = (\<lambda>modFile. None),
      GetD = (\<lambda>update pkg c.
                ((out, None),
                 Some (Manifest \<lparr>ModuleStmt = Some [],
                                 Require = map (\<lambda>mv. \<lparr>Mod = mv, Indirect = True,
                                                       Suffix = [''// indirect'']\<rparr>) mods,
                                 Replace = [], Comments = []\<rparr>))),
      GoEnv = (\<lambda>v. Inr ''/go''),
      List = (\<lambda>args c. ((kind, None), None)),
      Build = (\<lambda>pkg out flags envs. buildError)\<rparr>"

text \<open>
  The cache serves a request at a candidate module path when the metadata directory
  of the candidate exists and holds what the request needs: a readable, non-empty
  list of versions when an update is requested or no version is given, the
  \<open>.info\<close> file of the version when the version starts with \<open>v\<close>, and otherwise an
  entry that \<open>revisionInfo\<close> accepts.
\<close>

definition cacheServes :: "host \<Rightarrow> string \<Rightarrow> GetUpdatePolicy \<Rightarrow> Package \<Rightarrow> string \<Rightarrow> bool" where
  "cacheServes h modMetaCache update target modulePath =
     (let modMetaDir = filepath_Join [modMetaCache, modulePath, ''@v''];
          version = Version (Module target)
      in Stat h modMetaDir = StatOK \<and>
         (if update \<noteq> NoUpdatePolicy \<or> version = [] then
            \<not> isl (latestModVersion h (filepath_Join [modMetaDir, ''list'']))
          else if HasPrefix version ''v'' then
            Stat h (filepath_Join [modMetaDir, version @ ''.info'']) = StatOK
          else (case ReadDir h modMetaDir of
                  Inl e \<Rightarrow> False
                | Inr files \<Rightarrow> find (revisionInfo version) files \<noteq> None)))"

text \<open>
  A host for the examples: \<open>GOMODCACHE\<close> is \<open>/go/pkg/mod\<close>; the paths of \<open>present\<close>
  exist, \<open>listFiles\<close> gives the lines of the files that can be read, \<open>dirEntries\<close> the entries
  of the directories that can be listed.
\<close>

definition cacheHost ::
  "string list \<Rightarrow> (string \<times> string list) list \<Rightarrow> (string \<times> (string \<times> bool) list) list \<Rightarrow> host" where
  "cacheHost present listFiles dirEntries =
     \<lparr>Getenv = (\<lambda>v. if v = ''GOMODCACHE'' then ''/go/pkg/mod'' else []),
      Stat = (\<lambda>p. if p \<in> set present then StatOK else StatNotExist),
      ReadLines = (\<lambda>p. case map_of listFiles p of Some ls \<Rightarrow> Inr ls | None \<Rightarrow> Inl (OSError p)),
      ReadDir = (\<lambda>p. case map_of dirEntries p of Some es \<Rightarrow> Inr es | None \<Rightarrow> Inl (OSError p)),
      ReadModFile = (\<lambda>p. Inl (OSError p))\<rparr>"

text \<open>A target given by its full package path only, with a requested version.\<close>

definition unknownModule :: "string \<Rightarrow> string \<Rightarrow> Package" where
  "unknownModule pkgPath v =
     \<lparr>Module = \<lparr>Path = [], Version = v\<rparr>, RelPath = pkgPath, BuildEnvs = [], BuildFlags = []\<rparr>"

text \<open>
  Examples: a host whose cache holds the versions of the module \<open>github.com/a/b\<close>,
  and two indirect modules that the toolchain leaves in the disposable manifest.
\<close>

definition exampleHost :: host where
  "exampleHost =
     cacheHost [''/go/pkg/mod/cache/download/github.com/a/b/@v'',
                ''/go/pkg/mod/cache/download/github.com/a/b/@v/v1.0.0.info'']
       [(''/go/pkg/mod/cache/download/github.com/a/b/@v/list'', [''v1.0.0'', ''v1.1.0''])] []"

definition exampleMods :: "module_Version list" where
  "exampleMods = [\<lparr>Path = ''github.com/x/y'', Version = ''v1.0.0''\<rparr>,
                  \<lparr>Path = ''github.com/z/w'', Version = ''v0.2.0''\<rparr>]"

section \<open>Manifest files and the install orchestrator (\<^verbatim>\<open>pkg/bingo/mod.go\<close>, \<^verbatim>\<open>get.go\<close>)\<close>

definition metaComment :: string where
  "metaComment = ''// Auto generated by https://github.com/bwplotka/bingo. DO NOT EDIT''"

text \<open>\<^verbatim>\<open>errOnMetaMissing\<close>: true when it returns an error.\<close>

definition errOnMetaMissing :: "string list \<Rightarrow> bool" where
  "errOnMetaMissing suffix =
     (case suffix of [] \<Rightarrow> True | tok # _ \<Rightarrow> Trim tok (CHR 0x0A) \<noteq> metaComment)"

text \<open>
  \<^verbatim>\<open>OpenModFile\<close>: open the file for reading and writing, reload, and add the marker
  comment to the module line of the syntax tree in memory when it is missing.
\<close>

definition OpenModFile :: "fsys \<Rightarrow> string \<Rightarrow> error + ModFile" where
  "OpenModFile fs modFile =
     (case map_of (pin fs) modFile of
        None \<Rightarrow> Inl (OSError modFile)
      | Some i \<Rightarrow>
          (case Reload fs \<lparr>filename = modFile, f = i,
                           m = \<lparr>ModuleStmt = None, Require = [], Replace = [], Comments = []\<rparr>,
                           directPackage = None, autoReplaceDisabled = False\<rparr> of
             Inl e \<Rightarrow> Inl e
           | Inr mf \<Rightarrow>
               (case ModuleStmt (m mf) of
                  None \<Rightarrow> Inl NoModule
                | Some suffix \<Rightarrow>
                    if errOnMetaMissing suffix
                    then Inr (mf\<lparr>m := (m mf)\<lparr>ModuleStmt := Some (suffix @ [metaComment])\<rparr>\<rparr>)
                    else Inr mf)))"

text \<open>\<^verbatim>\<open>Close\<close>: flush, then close the file.\<close>

definition Close :: "fsys \<Rightarrow> ModFile \<Rightarrow> error option \<times> fsys" where
  "Close fs mf =
     (case Flush fs mf of
        (Inl e, fs') \<Rightarrow> (Some e, fs')
      | (Inr mf', fs') \<Rightarrow> (None, fs'))"

definition copyFile :: "fsys \<Rightarrow> string \<Rightarrow> string \<Rightarrow> error + fsys" where
  "copyFile fs src dst =
     (case readName fs src of
        None \<Rightarrow> Inl (OSError src)
      | Some c \<Rightarrow> Inr (writeFile fs dst c))"

text \<open>
  \<^verbatim>\<open>CreateFromExistingOrNew\<close>. \<open>fromExisting\<close> is the branch that takes an existing
  file as the source: \<open>None\<close> when there is no such file or it does not open, and the
  file is then created from scratch by the toolchain (a manifest with a module line
  only).
\<close>

definition fromExisting :: "fsys \<Rightarrow> string \<Rightarrow> string \<Rightarrow> ((error + ModFile) \<times> fsys) option" where
  "fromExisting fs existingFile modFile =
     (if existingFile \<noteq> [] \<and> map_of (pin fs) existingFile \<noteq> None then
        (case OpenModFile fs existingFile of
           Inl e \<Rightarrow> None
         | Inr opened \<Rightarrow>
             (case Close fs opened of
                (Some e, fs1) \<Rightarrow> Some (Inl e, fs1)
              | (None, fs1) \<Rightarrow>
                  (case copyFile fs1 existingFile modFile of
                     Inl e \<Rightarrow> Some (Inl e, fs1)
                   | Inr fs2 \<Rightarrow> Some (OpenModFile fs2 modFile, fs2))))
      else None)"

definition CreateFromExistingOrNew ::
  "toolchain \<Rightarrow> fsys \<Rightarrow> string \<Rightarrow> string \<Rightarrow> (error + ModFile) \<times> fsys" where
  "CreateFromExistingOrNew tc fs existingFile modFile =
     (let fs1 = removeName fs modFile
      in case fromExisting fs1 existingFile modFile of
           Some r \<Rightarrow> r
         | None \<Rightarrow>
             (case ModInit tc modFile of
                Some e \<Rightarrow> (Inl (Wrap e ''mod init''), fs1)
              | None \<Rightarrow>
                  let fs2 = writeFile fs1 modFile
                              (Manifest \<lparr>ModuleStmt = Some [], Require = [], Replace = [],
                                         Comments = []\<rparr>)
                  in (OpenModFile fs2 modFile, fs2)))"

text \<open>\<^verbatim>\<open>SetReplace\<close>: all replace directives are dropped and the given ones added.\<close>

definition SetReplace :: "ModFile \<Rightarrow> modfile_Replace list \<Rightarrow> ModFile" where
  "SetReplace mf target = mf\<lparr>m := (m mf)\<lparr>Replace := target\<rparr>\<rparr>"

text \<open>
  \<^verbatim>\<open>filepath.Glob\<close> in the pin directory, for a pattern without path separator: the
  entries that the pattern matches, or the error of a malformed pattern.
  \<^verbatim>\<open>filepath.Match\<close> is a parameter of type \<open>matcher\<close>; \<open>None\<close> is its error.
\<close>

type_synonym matcher = "string \<Rightarrow> string \<Rightarrow> bool option"

definition Glob :: "matcher \<Rightarrow> fsys \<Rightarrow> string \<Rightarrow> error + string list" where
  "Glob match fs pattern =
     (let names = map fst (pin fs)
      in if list_ex (\<lambda>n. match pattern n = None) names then Inl BadPattern
         else Inr (filter (\<lambda>n. match pattern n = Some True) names))"

definition removeAllGlob :: "matcher \<Rightarrow> fsys \<Rightarrow> string \<Rightarrow> error option \<times> fsys" where
  "removeAllGlob match fs glob =
     (case Glob match fs glob of
        Inl e \<Rightarrow> (Some e, fs)
      | Inr files \<Rightarrow> (None, foldl removeName fs files))"

definition cleanGoGetTmpFiles :: "matcher \<Rightarrow> fsys \<Rightarrow> error option \<times> fsys" where
  "cleanGoGetTmpFiles match fs =
     (case removeAllGlob match fs ''*.sum'' of
        (Some e, fs1) \<Rightarrow> (Some e, fs1)
      | (None, fs1) \<Rightarrow>
          (case removeAllGlob match fs1 ''*.*.tmp.*'' of
             (Some e, fs2) \<Rightarrow> (Some e, fs2)
           | (None, fs2) \<Rightarrow> removeAllGlob match fs2 ''*.tmp.*''))"

definition existingModFiles :: "matcher \<Rightarrow> fsys \<Rightarrow> string \<Rightarrow> error + string list" where
  "existingModFiles match fs targetName =
     (case Glob match fs (targetName @ ''.mod'') of
        Inl e \<Rightarrow> Inl e
      | Inr existing \<Rightarrow>
          (case Glob match fs (targetName @ ''.*.mod'') of
             Inl e \<Rightarrow> Inl e
           | Inr existingArr \<Rightarrow> Inr (existing @ existingArr)))"

definition FakeRootModFileName :: string where
  "FakeRootModFileName = ''go.mod''"

text \<open>
  \<^verbatim>\<open>ensureModDirExists\<close>: the fixed root module file, the README and the ignore rules
  are written on every run (the texts of the last two are abbreviated).
\<close>

definition ensureModDirExists :: "fsys \<Rightarrow> fsys" where
  "ensureModDirExists fs =
     writeFile
       (writeFile
          (writeFile fs FakeRootModFileName
             (Manifest \<lparr>ModuleStmt = Some [''// Fake go.mod auto-created by bingo''],
                        Require = [], Replace = [], Comments = []\<rparr>))
          ''README.md'' (Blob ''# Project Development Dependencies.''))
       ''.gitignore'' (Blob ''# Ignore everything'')"

definition validateNewName :: "string list \<Rightarrow> string \<Rightarrow> string \<Rightarrow> error option" where
  "validateNewName versions old new =
     (if new = old then Some (NewNameSame new)
      else if hd versions = ''none'' then Some NoneWithNewName
      else None)"

definition validateTargetName :: "string \<Rightarrow> error option" where
  "validateTargetName targetName =
     (if targetName = ''cmd'' then Some (AmbiguousName targetName)
      else if targetName = TrimSuffix FakeRootModFileName ''.mod''
      then Some (ImpossibleName (TrimSuffix FakeRootModFileName ''.mod''))
      else None)"

text \<open>
  \<^verbatim>\<open>install\<close>. A nil direct package is dereferenced by the source. The binary is an
  entry of the install directory named after the tool and the version; with \<open>link\<close>
  the entry named after the tool is removed and made a symbolic link to it.
\<close>

definition install ::
  "toolchain \<Rightarrow> fsys \<Rightarrow> string \<Rightarrow> bool \<Rightarrow> ModFile \<Rightarrow> error option \<times> fsys" where
  "install tc fs name link modFile =
     (case DirectPackage modFile of
        None \<Rightarrow> (Some NilDereference, fs)
      | Some pkg \<Rightarrow>
          (case validateTargetName name of
             Some e \<Rightarrow> (Some (Wrap e (PackageString pkg)), fs)
           | None \<Rightarrow>
               (case List tc (BuildFlags pkg @ [''-mod=mod'', ''-f={{.Name}}'', PackagePath pkg])
                       (readName fs (filename modFile)) of
                  ((listOutput, lerr), w) \<Rightarrow>
                    let fs1 = toolWrite fs (filename modFile) w
                    in (case lerr of
                          Some e \<Rightarrow> (Some (Wrap e ''list''), fs1)
                        | None \<Rightarrow>
                            if \<not> HasSuffix listOutput ''main''
                            then (Some (NonMain (PackagePath pkg) listOutput), fs1)
                            else
                              let binPath = name @ ''-'' @ Version (Module pkg)
                              in (case Build tc (PackagePath pkg) binPath (BuildFlags pkg)
                                         (BuildEnvs pkg) of
                                    Some e \<Rightarrow> (Some (Wrap e ''build versioned''), fs1)
                                  | None \<Rightarrow>
                                      let fs2 = fs1\<lparr>bin := filter (\<lambda>e. fst e \<noteq> binPath) (bin fs1)
                                                          @ [(binPath, Binary (PackagePath pkg))]\<rparr>
                                      in if \<not> link then (None, fs2)
                                         else (None,
                                               fs2\<lparr>bin := filter (\<lambda>e. fst e \<noteq> name) (bin fs2)
                                                            @ [(name, Symlink binPath)]\<rparr>))))))"

text \<open>
  \<^verbatim>\<open>localGoModFileAfterGet\<close>: upper-case letters of the module coordinate are written
  as \<open>!\<close> and the lower-case letter. \<^verbatim>\<open>autoFetchReplaceStatements\<close> reads the replace
  directives of the module file of the resolved module.
\<close>

definition escapeUpper :: "string \<Rightarrow> string" where
  "escapeUpper s =
     concat (map (\<lambda>c. if 65 \<le> (of_char c :: nat) \<and> (of_char c :: nat) \<le> 90
                       then [CHR ''!'', toLowerByte c] else [c]) s)"

definition moduleString :: "module_Version \<Rightarrow> string" where
  "moduleString mv = (if Version mv = [] then Path mv else Path mv @ ''@'' @ Version mv)"

definition localGoModFileAfterGet :: "string \<Rightarrow> Package \<Rightarrow> string" where
  "localGoModFileAfterGet gopath target =
     filepath_Join [gopath, ''pkg'', ''mod'', escapeUpper (moduleString (Module target)), ''go.mod'']"

definition autoFetchReplaceStatements ::
  "toolchain \<Rightarrow> host \<Rightarrow> Package \<Rightarrow> error + modfile_Replace list" where
  "autoFetchReplaceStatements tc h target =
     (case GoEnv tc ''GOPATH'' of
        Inl e \<Rightarrow> Inl (Wrap e ''go env'')
      | Inr gopath \<Rightarrow>
          let targetModFile = localGoModFileAfterGet gopath target
          in (case Stat h targetModFile of
                StatNotExist \<Rightarrow> Inr []
              | StatFailed \<Rightarrow> Inl (Wrap (OSError targetModFile) ''stat target mod directory'')
              | StatOK \<Rightarrow>
                  (case ReadModFile h targetModFile of
                     Inl e \<Rightarrow> Inl (Wrap e ''parse target mod file'')
                   | Inr parsed \<Rightarrow> Inr (Replace parsed))))"

text \<open>\<^verbatim>\<open>installPackageConfig\<close> and \<^verbatim>\<open>getConfig\<close>, without the directories and the runner.\<close>

record installPackageConfig =
  cfg_update :: GetUpdatePolicy
  cfg_link :: bool
  cfg_verbose :: bool

record getConfig = installPackageConfig +
  cfg_name :: string
  cfg_rename :: string

definition forPackage :: "getConfig \<Rightarrow> installPackageConfig" where
  "forPackage c = \<lparr>cfg_update = cfg_update c, cfg_link = cfg_link c, cfg_verbose = cfg_verbose c\<rparr>"

text \<open>The decimal digits of a number (\<^verbatim>\<open>%d\<close>).\<close>

fun showNat :: "nat \<Rightarrow> string" where
  "showNat n = (if n < 10 then [char_of (48 + n)]
                else showNat (n div 10) @ [char_of (48 + n mod 10)])"

text \<open>The names of the file of record, the disposable manifest and the staged manifest.\<close>

definition modFileNames :: "string \<Rightarrow> nat \<Rightarrow> string \<times> string \<times> string" where
  "modFileNames name i =
     (if i > 0
      then (name @ ''.'' @ showNat i @ ''.mod'', name @ ''.'' @ showNat i @ ''-e.tmp.mod'',
            name @ ''.'' @ showNat i @ ''.tmp.mod'')
      else (name @ ''.mod'', name @ ''-e.tmp.mod'', name @ ''.tmp.mod''))"

text \<open>
  The deferred \<^verbatim>\<open>Close\<close> calls of \<^verbatim>\<open>getPackage\<close> run when it returns, the last opened
  file first. An error of \<^verbatim>\<open>Close\<close> becomes the result when there was none (where both
  are there the source merges them; the first one is kept here).
\<close>

fun closeDeferred :: "error option \<times> fsys \<Rightarrow> ModFile list \<Rightarrow> error option \<times> fsys" where
  "closeDeferred r [] = r"
| "closeDeferred (err, fs) (mf # mfs) =
     (case Close fs mf of
        (cerr, fs') \<Rightarrow>
          closeDeferred
            (case err of
               Some e \<Rightarrow> Some e
             | None \<Rightarrow> (case cerr of Some ce \<Rightarrow> Some (Wrap ce ''close'') | None \<Rightarrow> None),
             fs') mfs)"

text \<open>
  The first part of \<^verbatim>\<open>getPackage\<close>: when the target lacks a tagged version or a
  module path, or an update is requested, the version is resolved on a disposable
  empty manifest and the replace directives of the resolved module are fetched. The
  result carries the manifests left open.
\<close>

definition resolveTarget ::
  "toolchain \<Rightarrow> host \<Rightarrow> installPackageConfig \<Rightarrow> fsys \<Rightarrow> string \<Rightarrow> Package
     \<Rightarrow> (error + Package \<times> modfile_Replace list) \<times> fsys \<times> ModFile list" where
  "resolveTarget tc h c fs tmpEmptyModFilePath target =
     (if Version (Module target) = [] \<or> \<not> HasPrefix (Version (Module target)) ''v''
         \<or> Path (Module target) = [] \<or> cfg_update c \<noteq> NoUpdatePolicy
      then
        (case CreateFromExistingOrNew tc fs [] tmpEmptyModFilePath of
           (Inl e, fs1) \<Rightarrow> (Inl (Wrap e ''create empty tmp mod file''), fs1, [])
         | (Inr tmpEmptyModFile, fs1) \<Rightarrow>
             (case resolvePackage tc h fs1 (cfg_verbose c) (filename tmpEmptyModFile)
                     (cfg_update c) target of
                (Inl e, fs2) \<Rightarrow> (Inl e, fs2, [tmpEmptyModFile])
              | (Inr resolved, fs2) \<Rightarrow>
                  if \<not> HasSuffix (Version (Module resolved)) ''+incompatible''
                  then (case autoFetchReplaceStatements tc h resolved of
                          Inl e \<Rightarrow> (Inl e, fs2, [tmpEmptyModFile])
                        | Inr replaceStmts \<Rightarrow> (Inr (resolved, replaceStmts), fs2, [tmpEmptyModFile]))
                  else (Inr (resolved, []), fs2, [tmpEmptyModFile])))
      else (Inr (target, []), fs, []))"

text \<open>
  The second part of \<^verbatim>\<open>getPackage\<close>: the staged manifest is created from the file of
  record, the replace directives and the direct package are set, the manifest is
  flushed, the package is installed and the staged manifest is renamed over the file
  of record.
\<close>

definition stageAndInstall ::
  "matcher \<Rightarrow> toolchain \<Rightarrow> installPackageConfig \<Rightarrow> fsys \<Rightarrow> string \<Rightarrow> string \<Rightarrow> string
     \<Rightarrow> Package \<Rightarrow> modfile_Replace list \<Rightarrow> (error option \<times> fsys) \<times> ModFile list" where
  "stageAndInstall match tc c fs name outModFile tmpModFilePath target replaceStmts =
     (case cleanGoGetTmpFiles match fs of
        (Some e, fs1) \<Rightarrow> ((Some e, fs1), [])
      | (None, fs1) \<Rightarrow>
          (case CreateFromExistingOrNew tc fs1 outModFile tmpModFilePath of
             (Inl e, fs2) \<Rightarrow> ((Some (Wrap e ''create tmp mod file''), fs2), [])
           | (Inr tmpModFile, fs2) \<Rightarrow>
               let replaced = (if \<not> autoReplaceDisabled tmpModFile \<and> replaceStmts \<noteq> []
                               then SetReplace tmpModFile replaceStmts else tmpModFile);
                   target1 = (case DirectPackage replaced of
                                Some old \<Rightarrow> target\<lparr>BuildEnvs := BuildEnvs old,
                                                    BuildFlags := BuildFlags old\<rparr>
                              | None \<Rightarrow> target);
                   staged = SetDirectRequire replaced target1
               in (case Flush fs2 staged of
                     (Inl e, fs3) \<Rightarrow> ((Some e, fs3), [staged])
                   | (Inr flushed, fs3) \<Rightarrow>
                       (case install tc fs3 name (cfg_link c) flushed of
                          (Some e, fs4) \<Rightarrow> ((Some (Wrap e ''install''), fs4), [flushed])
                        | (None, fs4) \<Rightarrow>
                            (case renameFile fs4 (filename flushed) outModFile of
                               Inl e \<Rightarrow> ((Some (Wrap e ''rename''), fs4), [flushed])
                             | Inr fs5 \<Rightarrow> ((None, fs5), [flushed]))))))"

definition getPackage ::
  "matcher \<Rightarrow> toolchain \<Rightarrow> host \<Rightarrow> installPackageConfig \<Rightarrow> fsys \<Rightarrow> nat \<Rightarrow> string \<Rightarrow> Package
     \<Rightarrow> error option \<times> fsys" where
  "getPackage match tc h c fs i name target =
     (case modFileNames name i of
        (outModFile, tmpEmptyModFilePath, tmpModFilePath) \<Rightarrow>
          (case resolveTarget tc h c fs tmpEmptyModFilePath target of
             (Inl e, fs1, opened) \<Rightarrow> closeDeferred (Some e, fs1) opened
           | (Inr (resolved, replaceStmts), fs1, opened) \<Rightarrow>
               (case stageAndInstall match tc c fs1 name outModFile tmpModFilePath resolved
                       replaceStmts of
                  (r, staged) \<Rightarrow> closeDeferred r (staged @ opened))))"

text \<open>
  \<^verbatim>\<open>get\<close>, up to and including the uninstall of a \<open>none\<close> target. The parts of \<^verbatim>\<open>get\<close>
  that handle no target at all (\<open>getAll\<close>), a rename after its first two checks
  (\<open>renameTool\<close>) and the installation of the versions (\<open>installTargets\<close>) are
  parameters.
\<close>

definition get ::
  "matcher \<Rightarrow> getConfig \<Rightarrow> (fsys \<Rightarrow> error option \<times> fsys)
     \<Rightarrow> (string \<Rightarrow> fsys \<Rightarrow> error option \<times> fsys)
     \<Rightarrow> (string \<Rightarrow> string \<Rightarrow> string \<Rightarrow> string list \<Rightarrow> string list \<Rightarrow> fsys \<Rightarrow> error option \<times> fsys)
     \<Rightarrow> fsys \<Rightarrow> string \<Rightarrow> error option \<times> fsys" where
  "get match c getAll renameTool installTargets fs rawTarget =
     (case cleanGoGetTmpFiles match fs of
        (Some e, fs1) \<Rightarrow> (Some e, fs1)
      | (None, fs1) \<Rightarrow>
          let fs2 = ensureModDirExists fs1
          in if rawTarget = [] then getAll fs2
             else
               (case parseTarget rawTarget of
                  Inl e \<Rightarrow> (Some (Wrap e ''parse''), fs2)
                | Inr (name, pkgPath, versions) \<Rightarrow>
                    if cfg_update c \<noteq> NoUpdatePolicy \<and> (hd versions \<noteq> [] \<or> length versions > 1)
                    then (Some (UpgradeTakesNoVersion versions), fs2)
                    else if cfg_rename c \<noteq> [] then
                      (if pkgPath \<noteq> [] then (Some (RenameByPath pkgPath), fs2)
                       else if hd versions \<noteq> [] \<or> length versions > 1
                       then (Some (RenameTakesNoVersion versions), fs2)
                       else renameTool name fs2)
                    else
                      (case (if cfg_name c \<noteq> [] then validateNewName versions name (cfg_name c)
                             else None) of
                         Some e \<Rightarrow> (Some (Wrap e ''-n''), fs2)
                       | None \<Rightarrow>
                           let targetName = (if cfg_name c \<noteq> [] then cfg_name c else name)
                           in (case existingModFiles match fs2 targetName of
                                 Inl e \<Rightarrow> (Some (Wrap e ''existing mod files''), fs2)
                               | Inr existing \<Rightarrow>
                                   if hd versions = ''none'' then
                                     (if pkgPath \<noteq> [] then (Some (CannotDeleteByPath targetName), fs2)
                                      else if existing = [] then (Some (NothingToDelete targetName), fs2)
                                      else removeAllGlob match fs2 (name @ ''.*''))
                                   else installTargets targetName name pkgPath versions existing
                                          fs2))))"

text \<open>
  A matcher for the examples: \<^verbatim>\<open>filepath.Match\<close> on patterns made of literal bytes and
  \<open>*\<close> (any sequence of bytes other than the path separator); it gives no answer on a
  pattern with one of the other metacharacters.
\<close>

fun starMatch :: "string \<Rightarrow> string \<Rightarrow> bool" where
  "starMatch [] [] = True"
| "starMatch [] (c # cs) = False"
| "starMatch (p # ps) [] = (p = CHR ''*'' \<and> starMatch ps [])"
| "starMatch (p # ps) (c # cs) =
     (if p = CHR ''*'' then starMatch ps (c # cs) \<or> (c \<noteq> CHR ''/'' \<and> starMatch (p # ps) cs)
      else p = c \<and> starMatch ps cs)"

definition exampleMatch :: matcher where
  "exampleMatch pattern name =
     (if CHR ''?'' \<in> set pattern \<or> CHR ''['' \<in> set pattern \<or> CHR 0x5C \<in> set pattern then None
      else Some (starMatch pattern name))"

text \<open>
  Examples: the open manifest of the staged file with \<open>examplePackage\<close> as its direct
  package; a pin directory with the manifest of the tool \<open>foo\<close> and a stale sum file
  of another tool; a file of record of \<open>foo\<close> with a direct and an indirect require
  line.
\<close>

definition exampleStaged :: ModFile where
  "exampleStaged = SetDirectRequire (exampleModFile\<lparr>filename := ''tool.tmp.mod''\<rparr>) examplePackage"

definition exampleConfig :: getConfig where
  "exampleConfig = \<lparr>cfg_update = NoUpdatePolicy, cfg_link = False, cfg_verbose = False,
                     cfg_name = [], cfg_rename = []\<rparr>"

definition examplePin :: fsys where
  "examplePin = \<lparr>pin = [(''foo.mod'', 0), (''bar.sum'', 1)], store = (\<lambda>_. Blob []),
                  nextInode = 2, bin = [(''foo-v1.0.0'', Binary ''github.com/a/b'')]\<rparr>"

definition exampleRecord :: modfile_File where
  "exampleRecord =
     \<lparr>ModuleStmt = Some [metaComment],
      Require = [\<lparr>Mod = \<lparr>Path = ''github.com/a/b'', Version = ''v1.0.0''\<rparr>, Indirect = False,
                  Suffix = []\<rparr>,
                 \<lparr>Mod = \<lparr>Path = ''github.com/c/d'', Version = ''v0.1.0''\<rparr>, Indirect = True,
                  Suffix = [''// indirect'']\<rparr>],
      Replace = [], Comments = []\<rparr>"

definition exampleRecordFS :: fsys where
  "exampleRecordFS = \<lparr>pin = [(''foo.mod'', 0)], store = (\<lambda>_. Manifest exampleRecord),
                       nextInode = 1, bin = []\<rparr>"

section \<open>Facts about the library functions\<close>

lemma Split_ne [simp]: "Split s sep \<noteq> []"
  by (induction s) (auto split: list.splits)

lemma Split_Cons [simp]:
  "Split (c # cs) sep =
     (if c = sep then [] # Split cs sep else (c # hd (Split cs sep)) # tl (Split cs sep))"
  by (cases "Split cs sep") auto

declare Split.simps(2) [simp del]

lemma Split_no_sep: "x \<in> set (Split s sep) \<Longrightarrow> sep \<notin> set x"
proof (induction s arbitrary: x)
  case Nil
  then show ?case by simp
next
  case (Cons c cs)
  then show ?case
    by (cases "Split cs sep") (auto split: if_splits)
qed

lemma Split_append_sep:
  "sep \<notin> set x \<Longrightarrow> Split (x @ sep # s) sep = x # Split s sep"
  by (induction x) auto

lemma Split_no_sep_single: "sep \<notin> set x \<Longrightarrow> Split x sep = [x]"
  by (induction x) auto

lemma Split_Join:
  "xs \<noteq> [] \<Longrightarrow> \<forall>x\<in>set xs. sep \<notin> set x \<Longrightarrow> Split (Join xs [sep]) sep = xs"
proof (induction xs "[sep]" rule: Join.induct)
  case 1
  then show ?case by simp
next
  case (2 x)
  then show ?case by (simp add: Split_no_sep_single)
next
  case (3 x y ys)
  then show ?case by (simp add: Split_append_sep)
qed

lemma nth_len_minus2:
  assumes "2 \<le> length xs"
  shows "xs ! (length xs - 2) = last (butlast xs)"
proof -
  obtain ys y where xs: "xs = ys @ [y]"
    using assms by (cases xs rule: rev_cases) auto
  with assms have ne: "ys \<noteq> []" by auto
  then have "last ys = ys ! (length ys - 1)" by (rule last_conv_nth)
  then show ?thesis using xs ne by (simp add: nth_append)
qed

lemma tl_Split_Nil_iff: "tl (Split s sep) = [] \<longleftrightarrow> sep \<notin> set s"
  by (induction s) auto

lemma last_Split: "last (Split s sep) = rev (takeWhile (\<lambda>c. c \<noteq> sep) (rev s))"
proof (induction s)
  case Nil
  then show ?case by simp
next
  case (Cons c cs)
  show ?case
  proof (cases "c = sep")
    case True
    then show ?thesis using Cons by (simp add: takeWhile_append)
  next
    case False
    show ?thesis
    proof (cases "sep \<in> set cs")
      case True
      then have "tl (Split cs sep) \<noteq> []" by (simp add: tl_Split_Nil_iff)
      then have "last (Split (c # cs) sep) = last (Split cs sep)"
        using False by (cases "Split cs sep") auto
      also have "\<dots> = rev (takeWhile (\<lambda>c. c \<noteq> sep) (rev cs))"
        by (rule Cons.IH)
      also have "takeWhile (\<lambda>c. c \<noteq> sep) (rev cs) = takeWhile (\<lambda>c. c \<noteq> sep) (rev (c # cs))"
        using True by (auto simp: takeWhile_append)
      finally show ?thesis .
    next
      case nosep: False
      then have "Split cs sep = [cs]" by (simp add: Split_no_sep_single)
      then show ?thesis using False nosep by (simp add: takeWhile_append)
    qed
  qed
qed

lemma Base_last_Split:
  assumes "p \<noteq> []" and "last p \<noteq> CHR ''/''"
  shows "Base p = last (Split p CHR ''/'')"
proof -
  have rp: "rev p \<noteq> []" "hd (rev p) \<noteq> CHR ''/''"
    using assms by (simp_all add: hd_rev)
  then have strip: "dropWhile (\<lambda>c. c = CHR ''/'') (rev p) = rev p"
    by (cases "rev p") auto
  have "takeWhile (\<lambda>c. c \<noteq> CHR ''/'') (rev p) \<noteq> []"
    using rp by (cases "rev p") auto
  then show ?thesis
    using assms(1) strip by (simp add: Base_def last_Split)
qed

lemma length_Split: "length (Split s sep) = Suc (length (filter (\<lambda>c. c = sep) s))"
  by (induction s) auto

lemma cleanElems_length:
  "length (cleanElems rooted es out) \<le> length out + length (filter (\<lambda>e. e \<noteq> []) es)"
proof (induction es arbitrary: out)
  case Nil
  then show ?case by simp
next
  case (Cons e es)
  show ?case
  proof (cases out)
    case Nil
    then show ?thesis
      using Cons[of "[]"] Cons[of "[e]"] by auto
  next
    case (Cons l ls)
    then show ?thesis
      using Cons.IH[of out] Cons.IH[of "e # out"] Cons.IH[of ls] by auto
  qed
qed

lemma cleanElems_set: "set (cleanElems rooted es out) \<subseteq> set out \<union> set es"
proof (induction es arbitrary: out)
  case Nil
  then show ?case by simp
next
  case (Cons e es)
  show ?case
  proof (cases out)
    case Nil
    then show ?thesis
      using Cons[of "[]"] Cons[of "[e]"] by auto
  next
    case (Cons l ls)
    then show ?thesis
      using Cons.IH[of out] Cons.IH[of "e # out"] Cons.IH[of ls] by auto
  qed
qed

lemma filter_sep_Join:
  "\<forall>x\<in>set xs. sep \<notin> set x \<Longrightarrow>
   length (filter (\<lambda>c. c = sep) (Join xs [sep])) = length xs - 1"
  by (induction xs "[sep]" rule: Join.induct) (auto simp: filter_empty_conv)


lemma filter_nonempty_last:
  assumes "xs \<noteq> []" and "last xs = []"
  shows "length (filter (\<lambda>e. e \<noteq> []) xs) \<le> length xs - 1"
proof -
  obtain ys where xs: "xs = ys @ [[]]"
    using assms by (cases xs rule: rev_cases) auto
  have "length (filter (\<lambda>e. e \<noteq> []) ys) \<le> length ys" by (rule length_filter_le)
  then show ?thesis using xs by simp
qed

lemma Clean_segments:
  assumes "pre \<noteq> []" and "last pre = CHR ''/''"
  shows "length (Split (Clean pre) CHR ''/'') \<le> max 2 (length (Split pre CHR ''/'') - 1)"
proof -
  let ?segs = "Split pre CHR ''/''"
  let ?rooted = "hd pre = CHR ''/''"
  let ?kept = "cleanElems ?rooted ?segs []"
  let ?n = "length ?segs"
  have "CHR ''/'' \<in> set pre"
    using assms by (metis last_in_set)
  then have "filter (\<lambda>c. c = CHR ''/'') pre \<noteq> []"
    by (auto simp: filter_empty_conv)
  then have n2: "?n \<ge> 2"
    by (cases "filter (\<lambda>c. c = CHR ''/'') pre") (auto simp: length_Split)
  have lastseg: "last ?segs = []"
  proof -
    have "rev pre \<noteq> []" "hd (rev pre) = CHR ''/''"
      using assms by (simp_all add: hd_rev)
    then have "takeWhile (\<lambda>c. c \<noteq> CHR ''/'') (rev pre) = []"
      by (cases "rev pre") auto
    then show ?thesis by (simp add: last_Split)
  qed
  have nonempty: "length (filter (\<lambda>e. e \<noteq> []) ?segs) \<le> ?n - 1"
    using lastseg by (intro filter_nonempty_last) simp_all
  have nonempty_rooted: "length (filter (\<lambda>e. e \<noteq> []) ?segs) \<le> ?n - 2" if r: ?rooted
  proof -
    obtain cs where pre: "pre = CHR ''/'' # cs"
      using assms(1) r by (cases pre) auto
    then have segs: "?segs = [] # Split cs CHR ''/''" by simp
    then have "last (Split cs CHR ''/'') = []" using lastseg by simp
    then have "length (filter (\<lambda>e. e \<noteq> []) (Split cs CHR ''/'')) \<le> length (Split cs CHR ''/'') - 1"
      by (intro filter_nonempty_last) simp_all
    then show ?thesis using segs by simp
  qed
  have klen: "length ?kept \<le> length (filter (\<lambda>e. e \<noteq> []) ?segs)"
    using cleanElems_length[of ?rooted ?segs "[]"] by simp
  have knosep: "\<forall>x\<in>set (rev ?kept). CHR ''/'' \<notin> set x"
    using cleanElems_set[of ?rooted ?segs "[]"] Split_no_sep[of _ pre "CHR ''/''"] by auto
  have cnt: "length (filter (\<lambda>c. c = CHR ''/'') (Join (rev ?kept) ''/'')) = length ?kept - 1"
    using filter_sep_Join[OF knosep] by simp
  let ?out = "(if ?rooted then ''/'' else []) @ Join (rev ?kept) ''/''"
  have clean: "Clean pre = (if ?out = [] then ''.'' else ?out)"
    using assms(1) by (simp add: Clean_def Let_def)
  show ?thesis
  proof (cases ?rooted)
    case True
    then have "Clean pre = CHR ''/'' # Join (rev ?kept) ''/''"
      using clean by simp
    then have "length (Split (Clean pre) CHR ''/'') = Suc (Suc (length ?kept - 1))"
      using cnt by (simp add: length_Split)
    moreover have "length ?kept \<le> ?n - 2"
      using klen nonempty_rooted[OF True] by linarith
    ultimately show ?thesis using n2 by linarith
  next
    case False
    show ?thesis
    proof (cases "Join (rev ?kept) ''/'' = []")
      case True
      then have "Clean pre = ''.''" using clean False by simp
      then have "length (Split (Clean pre) CHR ''/'') = 1" by simp
      then show ?thesis by linarith
    next
      case nonnil: False
      then have "Clean pre = Join (rev ?kept) ''/''" using clean False by simp
      then have "length (Split (Clean pre) CHR ''/'') = Suc (length ?kept - 1)"
        using cnt by (simp add: length_Split)
      moreover have "length ?kept \<le> ?n - 1"
        using klen nonempty by linarith
      ultimately show ?thesis using n2 by linarith
    qed
  qed
qed

lemma Dir_segments_max:
  "length (Split (Dir p) CHR ''/'') \<le> max 2 (length (Split p CHR ''/'') - 1)"
proof (cases "CHR ''/'' \<in> set p")
  case False
  then have "dropWhile (\<lambda>c. c \<noteq> CHR ''/'') (rev p) = []" by auto
  then have "Dir p = ''.''" by (simp add: Dir_def Clean_def)
  then show ?thesis by simp
next
  case True
  let ?Q = "\<lambda>c. c \<noteq> CHR ''/''"
  let ?pre = "rev (dropWhile ?Q (rev p))"
  have "?pre @ rev (takeWhile ?Q (rev p)) = rev (takeWhile ?Q (rev p) @ dropWhile ?Q (rev p))"
    by (simp only: rev_append)
  also have "\<dots> = p" by simp
  finally have split: "p = ?pre @ rev (takeWhile ?Q (rev p))" by (rule sym)
  have "filter (\<lambda>c. c = CHR ''/'') (rev (takeWhile ?Q (rev p))) = []"
    by (auto simp: filter_empty_conv dest: set_takeWhileD)
  then have "filter (\<lambda>c. c = CHR ''/'') p = filter (\<lambda>c. c = CHR ''/'') ?pre"
    using split by (metis append_Nil2 filter_append)
  then have same: "length (Split ?pre CHR ''/'') = length (Split p CHR ''/'')"
    by (simp add: length_Split)
  have dne: "dropWhile ?Q (rev p) \<noteq> []" using True by simp
  then have ne: "?pre \<noteq> []" by simp
  from dne have "\<not> ?Q (hd (dropWhile ?Q (rev p)))" by (rule hd_dropWhile)
  then have "last ?pre = CHR ''/''" using ne by (simp add: last_rev)
  from Clean_segments[OF ne this] same show ?thesis by (simp add: Dir_def)
qed

lemma Dir_segments:
  assumes "length (Split p CHR ''/'') > 2"
  shows "length (Split (Dir p) CHR ''/'') < length (Split p CHR ''/'')"
  using Dir_segments_max[of p] assms by linarith

lemma Dir_segments_parent:
  assumes "length (Split (Dir p) CHR ''/'') > 2"
  shows "length (Split p CHR ''/'') > 2"
  using Dir_segments_max[of p] assms by linarith

section \<open>The target parser: version lists and default names\<close>

lemma checkVersions_None:
  "checkVersions vs0 dup vs = None \<longleftrightarrow>
     (distinct vs \<and> set vs \<inter> set dup = {} \<and> ''none'' \<notin> set vs)"
  by (induction vs arbitrary: dup) auto

text \<open>
  Claim C4. For a raw target whose version list (the comma-separated section after
  \<open>@\<close>) has more than one element, \<open>parseTarget\<close> fails when two listed versions are
  equal and fails when \<open>none\<close> is one of them; otherwise it succeeds and returns the
  version list unchanged.
\<close>

theorem parseTarget_versions:
  assumes "length (targetVersions rawTarget) > 1"
  shows "(\<not> distinct (targetVersions rawTarget) \<or> ''none'' \<in> set (targetVersions rawTarget)
            \<longrightarrow> isl (parseTarget rawTarget))
       \<and> (distinct (targetVersions rawTarget) \<and> ''none'' \<notin> set (targetVersions rawTarget)
            \<longrightarrow> (\<exists>name pkgPath.
                  parseTarget rawTarget = Inr (name, pkgPath, targetVersions rawTarget)))"
proof -
  have ne: "rawTarget \<noteq> []"
    using assms by (auto simp: targetVersions_def)
  show ?thesis
    using assms ne
      checkVersions_None[of "targetVersions rawTarget" "[]" "targetVersions rawTarget"]
    by (cases "checkVersions (targetVersions rawTarget) [] (targetVersions rawTarget)")
       (auto simp: parseTarget_def Let_def)
qed

theorem parseTarget_versions_witness:
  "length (targetVersions ''foo@v1,v1'') > 1
   \<and> isl (parseTarget ''foo@v1,v1'')
   \<and> length (targetVersions ''foo@v1,none'') > 1
   \<and> isl (parseTarget ''foo@v1,none'')
   \<and> length (targetVersions ''foo@v1,v2'') > 1
   \<and> (\<exists>name pkgPath. parseTarget ''foo@v1,v2'' = Inr (name, pkgPath, [''v1'', ''v2'']))"
proof -
  have l1: "length (targetVersions ''foo@v1,v1'') > 1" by code_simp
  have d1: "\<not> distinct (targetVersions ''foo@v1,v1'')" by code_simp
  have l2: "length (targetVersions ''foo@v1,none'') > 1" by code_simp
  have d2: "''none'' \<in> set (targetVersions ''foo@v1,none'')" by code_simp
  have l3: "length (targetVersions ''foo@v1,v2'') > 1" by code_simp
  have v3: "targetVersions ''foo@v1,v2'' = [''v1'', ''v2'']" by code_simp
  have d3: "distinct [''v1'', ''v2''] \<and> ''none'' \<notin> set [''v1'', ''v2'']" by simp
  from parseTarget_versions[OF l1] d1 have r1: "isl (parseTarget ''foo@v1,v1'')"
    by blast
  from parseTarget_versions[OF l2] d2 have r2: "isl (parseTarget ''foo@v1,none'')"
    by blast
  from parseTarget_versions[OF l3] d3
  have r3: "\<exists>name pkgPath. parseTarget ''foo@v1,v2'' = Inr (name, pkgPath, [''v1'', ''v2''])"
    unfolding v3 by blast
  from l1 r1 l2 r2 l3 r3 show ?thesis by blast
qed

text \<open>
  Claim C5, as amended. For a raw target whose locator (the text before the first
  \<open>@\<close>) contains a path separator and does not end in one, the tool name is the
  lower-cased last path segment of the locator, except that when the locator has more
  than three segments and its last segment matches \<^verbatim>\<open>^v[0-9]*$\<close> the name is the
  lower-cased segment before it. In particular \<open>github.com/x/y/v2\<close> yields \<open>y\<close>.
\<close>

theorem parseTarget_name:
  assumes "parseTarget rawTarget = Inr (name, pkgPath, versions)"
    and "CHR ''/'' \<in> set (hd (Split rawTarget CHR ''@''))"
    and "last (hd (Split rawTarget CHR ''@'')) \<noteq> CHR ''/''"
  shows "pkgPath = hd (Split rawTarget CHR ''@'')
       \<and> name = ToLower (let segs = Split pkgPath CHR ''/''
                          in if length segs > 3 \<and> goModVersionRegexp (last segs)
                             then last (butlast segs) else last segs)
       \<and> parseTarget ''github.com/x/y/v2'' = Inr (''y'', ''github.com/x/y/v2'', [[]])"
proof -
  let ?p = "hd (Split rawTarget CHR ''@'')"
  have ne: "?p \<noteq> []" using assms(2) by auto
  have base: "Base ?p = last (Split ?p CHR ''/'')"
    using ne assms(3) by (rule Base_last_Split)
  have idx: "Split ?p CHR ''/'' ! (length (Split ?p CHR ''/'') - 2)
               = last (butlast (Split ?p CHR ''/''))"
    if "length (Split ?p CHR ''/'') > 3"
    using that by (intro nth_len_minus2) simp
  have ex: "parseTarget ''github.com/x/y/v2'' = Inr (''y'', ''github.com/x/y/v2'', [[]])"
    by code_simp
  from assms(1,2) have "pkgPath = ?p \<and> name = ToLower (defaultName ?p)"
    by (auto simp: parseTarget_def Let_def split: if_splits option.splits)
  then show ?thesis
    using base idx ex by (auto simp: defaultName_def Let_def)
qed

theorem parseTarget_name_witness:
  "parseTarget ''Github.com/X/Tool/v2@v1.0.0''
     = Inr (''tool'', ''Github.com/X/Tool/v2'', [''v1.0.0''])
   \<and> ''Github.com/X/Tool/v2'' = hd (Split ''Github.com/X/Tool/v2@v1.0.0'' CHR ''@'')
   \<and> ''tool'' = ToLower (let segs = Split ''Github.com/X/Tool/v2'' CHR ''/''
                            in if length segs > 3 \<and> goModVersionRegexp (last segs)
                               then last (butlast segs) else last segs)"
proof -
  have p: "parseTarget ''Github.com/X/Tool/v2@v1.0.0''
             = Inr (''tool'', ''Github.com/X/Tool/v2'', [''v1.0.0''])"
    by code_simp
  have s: "CHR ''/'' \<in> set (hd (Split ''Github.com/X/Tool/v2@v1.0.0'' CHR ''@''))"
    by code_simp
  have l: "last (hd (Split ''Github.com/X/Tool/v2@v1.0.0'' CHR ''@'')) \<noteq> CHR ''/''"
    by code_simp
  note r = parseTarget_name[OF p s l]
  from p r show ?thesis by blast
qed

text \<open>
  The claim as stated fails for a locator of three segments: the last segment of
  \<open>x/y/v2\<close> matches the version pattern, and the name is \<open>v2\<close>, not \<open>y\<close>.
\<close>

theorem parseTarget_name_counterexample:
  "last (Split ''x/y/v2'' CHR ''/'') = ''v2'' \<and> goModVersionRegexp ''v2''
   \<and> parseTarget ''x/y/v2'' = Inr (''v2'', ''x/y/v2'', [[]])"
  by code_simp

section \<open>The manifest store: the structured comment of the direct require line\<close>

lemma metaToken_nonempty: "metaToken s \<Longrightarrow> s \<noteq> []"
  by (simp add: metaToken_def)

lemma printable_not_space: "printable c \<Longrightarrow> \<not> isSpace c"
  by (auto simp: printable_def isSpace_def Let_def)

lemma metaToken_no_space: "metaToken s \<Longrightarrow> c \<in> set s \<Longrightarrow> \<not> isSpace c"
  by (auto simp: metaToken_def list_all_iff printable_not_space)

lemma metaToken_chars: "metaToken s \<Longrightarrow> CHR '' '' \<notin> set s \<and> CHR 0x0A \<notin> set s"
proof -
  assume a: "metaToken s"
  have "isSpace (CHR '' '')" "isSpace (CHR 0x0A)" by (simp_all add: isSpace_def)
  then show ?thesis using metaToken_no_space[OF a] by blast
qed

lemma parseMetaLoop_envs:
  "list_all envToken envs \<Longrightarrow> flagTokens fl \<Longrightarrow>
   parseMetaLoop (envs @ fl) rel acc = (rel, acc @ envs, fl)"
proof (induction envs arbitrary: acc)
  case Nil
  then show ?case
    by (cases fl) (auto simp: flagTokens_def dest: metaToken_nonempty)
next
  case (Cons e envs)
  then show ?case by (auto simp: envToken_def dest: metaToken_nonempty)
qed

lemma set_Join: "set (Join xs sep) \<subseteq> \<Union> (set ` set xs) \<union> set sep"
  by (induction xs sep rule: Join.induct) auto

lemma Trim_id: "c \<notin> set s \<Longrightarrow> Trim s c = s"
proof -
  assume a: "c \<notin> set s"
  then have "dropWhile (\<lambda>d. d = c) s = s" by (cases s) auto
  moreover from a have "dropWhile (\<lambda>d. d = c) (rev s) = rev s" by (cases "rev s") auto
  ultimately show ?thesis by (simp add: Trim_def)
qed

lemma TrimSpace_id:
  assumes "s \<noteq> []" and "\<not> isSpace (hd s)" and "\<not> isSpace (last s)"
  shows "TrimSpace s = s"
proof -
  have "dropWhile isSpace s = s" using assms(1,2) by (cases s) auto
  moreover have "dropWhile isSpace (rev s) = rev s"
    using assms(1,3) by (cases "rev s") (auto simp: last_rev[symmetric] hd_rev)
  ultimately show ?thesis by (simp add: TrimSpace_def)
qed

lemma Join_nonempty:
  "xs \<noteq> [] \<Longrightarrow> \<forall>x\<in>set xs. x \<noteq> [] \<Longrightarrow> Join xs sep \<noteq> []"
  by (induction xs sep rule: Join.induct) auto

lemma last_Join:
  "xs \<noteq> [] \<Longrightarrow> \<forall>x\<in>set xs. x \<noteq> [] \<Longrightarrow> last (Join xs sep) = last (last xs)"
proof (induction xs sep rule: Join.induct)
  case (3 x y ys sep)
  have "Join (y # ys) sep \<noteq> []" using 3(3) by (intro Join_nonempty) auto
  then show ?case using 3 by simp
qed simp_all

lemma fieldsFrom_token:
  "\<forall>c\<in>set tok. \<not> isSpace c \<Longrightarrow> fieldsFrom cur (tok @ rest) = fieldsFrom (rev tok @ cur) rest"
  by (induction tok arbitrary: cur) auto

lemma fieldsFrom_Join:
  "\<forall>x\<in>set xs. metaToken x \<Longrightarrow> fieldsFrom [] (Join xs '' '') = xs"
proof (induction xs "'' ''" rule: Join.induct)
  case 1
  then show ?case by simp
next
  case (2 x)
  then have "fieldsFrom [] (x @ []) = fieldsFrom (rev x @ []) []"
    by (intro fieldsFrom_token) (auto dest: metaToken_no_space)
  then show ?case using 2 by (auto dest: metaToken_nonempty)
next
  case (3 x y ys)
  have "fieldsFrom [] (x @ ('' '' @ Join (y # ys) '' '')) =
        fieldsFrom (rev x @ []) ('' '' @ Join (y # ys) '' '')"
    using 3(2) by (intro fieldsFrom_token) (auto dest: metaToken_no_space)
  moreover have "x \<noteq> []" using 3(2) by (auto dest: metaToken_nonempty)
  ultimately show ?case using 3 by (simp add: isSpace_def)
qed

lemma Fields_comment:
  assumes "\<forall>x\<in>set xs. metaToken x"
  shows "Fields (TrimPrefix (''// '' @ Join xs '' '') ''//'') = xs"
proof -
  have "TrimPrefix (''// '' @ Join xs '' '') ''//'' = CHR '' '' # Join xs '' ''"
    by (simp add: TrimPrefix_def HasPrefix_def)
  then show ?thesis
    using fieldsFrom_Join[OF assms] by (simp add: Fields_def isSpace_def)
qed

lemma isIndirect_comment:
  assumes "\<forall>x\<in>set xs. metaToken x"
  shows "isIndirect [''// '' @ Join xs '' ''] = indirectMarker xs"
proof -
  have "xs = [''indirect''] \<longleftrightarrow> length xs = 1 \<and> hd xs = ''indirect''"
    by (cases xs) auto
  then show ?thesis
    unfolding isIndirect_def indirectMarker_def list.case Let_def Fields_comment[OF assms]
    by simp
qed

lemma TrimSpace_comment:
  assumes "xs \<noteq> []" and "\<forall>x\<in>set xs. metaToken x"
  shows "TrimSpace (''// '' @ Join xs '' '') = ''// '' @ Join xs '' ''"
proof -
  have ne: "\<forall>x\<in>set xs. x \<noteq> []" using assms(2) by (auto dest: metaToken_nonempty)
  have j: "Join xs '' '' \<noteq> []" using assms(1) ne by (rule Join_nonempty)
  have "last (Join xs '' '') = last (last xs)" using assms(1) ne by (rule last_Join)
  moreover have "last xs \<in> set xs" using assms(1) by simp
  moreover have "last (last xs) \<in> set (last xs)" using ne assms(1) by simp
  ultimately have "\<not> isSpace (last (Join xs '' ''))"
    using assms(2) metaToken_no_space by metis
  then have "\<not> isSpace (last (''// '' @ Join xs '' ''))" using j by simp
  moreover have "\<not> isSpace (hd (''// '' @ Join xs '' ''))" by (simp add: isSpace_def)
  ultimately show ?thesis by (intro TrimSpace_id) auto
qed

lemma SetDirectRequire_m:
  "Require (m (SetDirectRequire mf target)) =
     [\<lparr>Mod = Module target, Indirect = False,
       Suffix = (if directMeta target \<noteq> [] then [''// '' @ Join (directMeta target) '' ''] else [])\<rparr>]"
  by (simp add: SetDirectRequire_def Let_def dropAllRequire_def)

lemma SetDirectRequire_directPackage:
  "directPackage (SetDirectRequire mf target) = Some target"
  by (simp add: SetDirectRequire_def Let_def)

lemma SetDirectRequire_f: "f (SetDirectRequire mf target) = f mf"
  by (simp add: SetDirectRequire_def Let_def)

lemma parseMetaLoop_wellFormed:
  assumes "wellFormedMeta r"
  shows "parseMetaLoop (directMeta r) [] [] = (RelPath r, BuildEnvs r, BuildFlags r)"
proof (cases "RelPath r = []")
  case True
  then show ?thesis
    using assms parseMetaLoop_envs[of "BuildEnvs r" "BuildFlags r" "[]" "[]"]
    by (simp add: wellFormedMeta_def directMeta_def)
next
  case False
  then have rel: "relPathToken (RelPath r)"
    using assms by (simp add: wellFormedMeta_def)
  then have "directMeta r = RelPath r # (BuildEnvs r @ BuildFlags r)"
    using False by (simp add: directMeta_def relPathToken_def)
  moreover have "parseMetaLoop (RelPath r # (BuildEnvs r @ BuildFlags r)) [] []
                   = parseMetaLoop (BuildEnvs r @ BuildFlags r) (RelPath r) []"
    using rel False by (simp add: relPathToken_def)
  ultimately show ?thesis
    using assms parseMetaLoop_envs[of "BuildEnvs r" "BuildFlags r" "RelPath r" "[]"]
    by (simp add: wellFormedMeta_def)
qed

lemma directMeta_tokens:
  assumes "wellFormedMeta r"
  shows "\<forall>x\<in>set (directMeta r). metaToken x"
  using assms
  by (auto simp: wellFormedMeta_def directMeta_def relPathToken_def envToken_def
      flagTokens_def list_all_iff)

lemma parseDirectPackageMeta_Join:
  assumes "wellFormedMeta r" and "directMeta r \<noteq> []"
  shows "parseDirectPackageMeta (Trim (drop 3 (''// '' @ Join (directMeta r) '' '')) (CHR 0x0A))
           = (RelPath r, BuildEnvs r, BuildFlags r)"
proof -
  have tok: "\<forall>x\<in>set (directMeta r). metaToken x"
    using assms(1) by (rule directMeta_tokens)
  have "CHR 0x0A \<notin> set (Join (directMeta r) '' '')"
    using tok set_Join[of "directMeta r" "'' ''"] metaToken_chars by fastforce
  then have trim: "Trim (Join (directMeta r) '' '') (CHR 0x0A) = Join (directMeta r) '' ''"
    by (rule Trim_id)
  have "\<forall>x\<in>set (directMeta r). CHR '' '' \<notin> set x"
    using tok metaToken_chars by blast
  then have "Split (Join (directMeta r) [CHR '' '']) CHR '' '' = directMeta r"
    using assms(2) by (intro Split_Join) auto
  then show ?thesis
    using trim parseMetaLoop_wellFormed[OF assms(1)]
    by (simp add: parseDirectPackageMeta_def)
qed

text \<open>
  The require line that \<open>SetDirectRequire\<close> writes for a record, and what
  \<open>parseRequire\<close> reads from it: the same line with the version in canonical form.
\<close>

lemma firstDirect_line:
  assumes "wellFormedMeta r"
  shows "firstDirect [\<lparr>Mod = mv, Indirect = False,
            Suffix = (if directMeta r \<noteq> [] then [''// '' @ Join (directMeta r) '' ''] else [])\<rparr>]
         = Inr (Some \<lparr>Module = mv, RelPath = RelPath r, BuildEnvs = BuildEnvs r,
                       BuildFlags = BuildFlags r\<rparr>)"
proof (cases "directMeta r = []")
  case True
  then have "RelPath r = [] \<and> BuildEnvs r = [] \<and> BuildFlags r = []"
    using assms by (auto simp: directMeta_def wellFormedMeta_def relPathToken_def split: if_splits)
  then show ?thesis
    using True by (simp add: firstDirect_def)
next
  case False
  then show ?thesis
    using parseDirectPackageMeta_Join[OF assms False]
    by (simp add: firstDirect_def)
qed

lemma parseRequire_line:
  assumes "acceptedModule (Module r)" and "wellFormedMeta r"
    and "\<not> indirectMarker (directMeta r)"
  shows "parseRequire \<lparr>Mod = Module r, Indirect = False,
            Suffix = (if directMeta r \<noteq> [] then [''// '' @ Join (directMeta r) '' ''] else [])\<rparr>
         = Inr \<lparr>Mod = \<lparr>Path = Path (Module r), Version = CanonicalVersion (Version (Module r))\<rparr>,
                Indirect = False,
                Suffix = (if directMeta r \<noteq> [] then [''// '' @ Join (directMeta r) '' ''] else [])\<rparr>"
proof -
  have tok: "\<forall>x\<in>set (directMeta r). metaToken x"
    using assms(2) by (rule directMeta_tokens)
  obtain prefix pathMajor ok where sp: "SplitPathVersion (Path (Module r)) = (prefix, pathMajor, ok)"
    by (cases "SplitPathVersion (Path (Module r))") auto
  have acc: "CanonicalVersion (Version (Module r)) \<noteq> []" "ok"
    "CheckPathMajor (CanonicalVersion (Version (Module r))) pathMajor"
    using assms(1) sp by (simp_all add: acceptedModule_def)
  show ?thesis
  proof (cases "directMeta r = []")
    case True
    then show ?thesis
      using acc sp by (simp add: parseRequire_def Let_def isIndirect_def)
  next
    case False
    have "isIndirect [''// '' @ Join (directMeta r) '' ''] = False"
      using isIndirect_comment[OF tok] assms(3) by simp
    then show ?thesis
      using acc sp False TrimSpace_comment[OF False tok]
      by (simp add: parseRequire_def Let_def)
  qed
qed

lemma modfileParse_SetDirectRequire:
  assumes "acceptedModule (Module r)" and "wellFormedMeta r"
    and "\<not> indirectMarker (directMeta r)"
  shows "modfileParse (m (SetDirectRequire mf r)) =
         Inr ((m (SetDirectRequire mf r))\<lparr>Require :=
           [\<lparr>Mod = \<lparr>Path = Path (Module r), Version = CanonicalVersion (Version (Module r))\<rparr>,
             Indirect = False,
             Suffix = (if directMeta r \<noteq> [] then [''// '' @ Join (directMeta r) '' ''] else [])\<rparr>]\<rparr>)"
  unfolding modfileParse_def SetDirectRequire_m
  using parseRequire_line[OF assms] by simp

lemma Flush_SetDirectRequire:
  assumes "acceptedModule (Module r)" and "wellFormedMeta r"
    and "\<not> indirectMarker (directMeta r)"
  shows "\<exists>mf'. fst (Flush fs (SetDirectRequire mf r)) = Inr mf'
           \<and> DirectPackage mf' =
               Some \<lparr>Module = \<lparr>Path = Path (Module r),
                                Version = CanonicalVersion (Version (Module r))\<rparr>,
                     RelPath = RelPath r, BuildEnvs = BuildEnvs r, BuildFlags = BuildFlags r\<rparr>"
  using modfileParse_SetDirectRequire[OF assms, of mf] firstDirect_line[OF assms(2)]
  by (simp add: Flush_def Reload_def Let_def DirectPackage_def SetDirectRequire_directPackage)

text \<open>
  What the reload after a flush does to a record outside these bounds: a shortened
  version is read back in canonical form, a version that is not a semantic version
  or does not fit the path makes the flush fail, and the relative path \<open>indirect\<close>
  alone turns the line into an indirect one, so that no direct package is read.
\<close>

lemma Flush_canonical_version:
  "(case fst (Flush exampleFS (SetDirectRequire exampleModFile
        \<lparr>Module = \<lparr>Path = ''github.com/a/b'', Version = ''v1''\<rparr>, RelPath = [],
          BuildEnvs = [], BuildFlags = []\<rparr>)) of
      Inl e \<Rightarrow> None
    | Inr mf' \<Rightarrow> map_option (\<lambda>p. Version (Module p)) (DirectPackage mf'))
   = Some ''v1.0.0''"
  by code_simp

lemma Flush_rejected_version:
  "fst (Flush exampleFS (SetDirectRequire exampleModFile
        \<lparr>Module = \<lparr>Path = ''github.com/a/b'', Version = []\<rparr>, RelPath = [],
          BuildEnvs = [], BuildFlags = []\<rparr>))
     = Inl (Wrap (InvalidVersion []) ''parse'')
   \<and> fst (Flush exampleFS (SetDirectRequire exampleModFile
        \<lparr>Module = \<lparr>Path = ''github.com/a/b'', Version = ''2f1e2d3c4b5a''\<rparr>, RelPath = [],
          BuildEnvs = [], BuildFlags = []\<rparr>))
     = Inl (Wrap (InvalidVersion ''2f1e2d3c4b5a'') ''parse'')
   \<and> fst (Flush exampleFS (SetDirectRequire exampleModFile
        \<lparr>Module = \<lparr>Path = ''github.com/a/b'', Version = ''v2.0.0''\<rparr>, RelPath = [],
          BuildEnvs = [], BuildFlags = []\<rparr>))
     = Inl (Wrap (PathMajorMismatch ''github.com/a/b'' ''v2.0.0'') ''parse'')"
  by code_simp

lemma Flush_indirect_comment:
  "(case fst (Flush exampleFS (SetDirectRequire exampleModFile
        \<lparr>Module = \<lparr>Path = ''github.com/a/b'', Version = ''v1.0.0''\<rparr>, RelPath = ''indirect'',
          BuildEnvs = [], BuildFlags = []\<rparr>)) of
      Inl e \<Rightarrow> None
    | Inr mf' \<Rightarrow> Some (DirectPackage mf'))
   = Some None"
  by code_simp

lemma indirectMarker_envs_flags:
  assumes "list_all envToken envs" and "flagTokens fl"
  shows "\<not> indirectMarker (envs @ fl)"
proof -
  have "x \<noteq> ''indirect'' \<and> x \<noteq> ''indirect;''" if "x \<in> set (envs @ fl)" "x = hd (envs @ fl)" for x
  proof (cases envs)
    case Nil
    then show ?thesis using that assms(2) by (cases fl) (auto simp: flagTokens_def)
  next
    case (Cons e es)
    then show ?thesis using that assms(1) by (auto simp: envToken_def)
  qed
  then show ?thesis
    unfolding indirectMarker_def by (cases "envs @ fl") auto
qed

text \<open>
  Claim C3, as amended. For every package record whose module coordinate
  \<^verbatim>\<open>modfile.Parse\<close> accepts (\<open>acceptedModule\<close>), whose version is in canonical form, whose
  relative path, build environment and build flags are well-formed elements of the
  structured comment (\<open>wellFormedMeta\<close>) and do not make up the indirect mark,
  \<open>SetDirectRequire\<close> followed by \<open>Flush\<close> succeeds and \<open>DirectPackage\<close> then returns a
  record equal to the one written. The manifest has no replace directives, which
  \<^verbatim>\<open>modfile.Parse\<close> checks as well.
\<close>

theorem SetDirectRequire_roundtrip:
  assumes "acceptedModule (Module r)"
    and "CanonicalVersion (Version (Module r)) = Version (Module r)"
    and "wellFormedMeta r"
    and "\<not> indirectMarker (directMeta r)"
    and "Replace (m mf) = []"
  shows "\<exists>mf'. fst (Flush fs (SetDirectRequire mf r)) = Inr mf' \<and> DirectPackage mf' = Some r"
proof -
  have "\<lparr>Path = Path (Module r), Version = Version (Module r)\<rparr> = Module r" by simp
  then have "\<lparr>Module = \<lparr>Path = Path (Module r), Version = CanonicalVersion (Version (Module r))\<rparr>,
              RelPath = RelPath r, BuildEnvs = BuildEnvs r, BuildFlags = BuildFlags r\<rparr> = r"
    using assms(2) by simp
  then show ?thesis
    using Flush_SetDirectRequire[OF assms(1,3,4), of fs mf] by simp
qed

theorem SetDirectRequire_roundtrip_witness:
  "acceptedModule (Module examplePackage)
   \<and> CanonicalVersion (Version (Module examplePackage)) = Version (Module examplePackage)
   \<and> wellFormedMeta examplePackage
   \<and> \<not> indirectMarker (directMeta examplePackage)
   \<and> Replace (m exampleModFile) = []
   \<and> (\<exists>mf'. fst (Flush exampleFS (SetDirectRequire exampleModFile examplePackage)) = Inr mf'
             \<and> DirectPackage mf' = Some examplePackage)"
proof -
  have a: "acceptedModule (Module examplePackage)" by code_simp
  have c: "CanonicalVersion (Version (Module examplePackage)) = Version (Module examplePackage)"
    by code_simp
  have w: "wellFormedMeta examplePackage" by code_simp
  have n: "\<not> indirectMarker (directMeta examplePackage)" by code_simp
  have e: "Replace (m exampleModFile) = []" by code_simp
  from a c w n e SetDirectRequire_roundtrip[OF a c w n e, of exampleFS]
  show ?thesis by blast
qed

text \<open>
  The claim as stated fails for a build flag that contains a space: the flags
  \<open>-ldflags\<close> and \<open>-s -w\<close> are read back as three flags.
\<close>

theorem SetDirectRequire_roundtrip_counterexample:
  "(case fst (Flush exampleFS (SetDirectRequire exampleModFile
        \<lparr>Module = \<lparr>Path = ''github.com/a/b'', Version = ''v1.0.0''\<rparr>, RelPath = [],
          BuildEnvs = [], BuildFlags = [''-ldflags'', ''-s -w'']\<rparr>)) of
      Inl e \<Rightarrow> None
    | Inr mf' \<Rightarrow> DirectPackage mf')
   = Some \<lparr>Module = \<lparr>Path = ''github.com/a/b'', Version = ''v1.0.0''\<rparr>, RelPath = [],
           BuildEnvs = [], BuildFlags = [''-ldflags'', ''-s'', ''-w'']\<rparr>
   \<and> [''-ldflags'', ''-s'', ''-w''] \<noteq> [''-ldflags'', ''-s -w'']"
  by code_simp

lemma directMeta_dot: "directMeta (r\<lparr>RelPath := ''.''\<rparr>) = directMeta (r\<lparr>RelPath := []\<rparr>)"
  by (simp add: directMeta_def)

lemma SetDirectRequire_dot:
  "m (SetDirectRequire mf (r\<lparr>RelPath := ''.''\<rparr>)) = m (SetDirectRequire mf (r\<lparr>RelPath := []\<rparr>))"
  by (simp add: SetDirectRequire_def Let_def directMeta_dot)

lemma Flush_dot:
  "fst (Flush fs (SetDirectRequire mf (r\<lparr>RelPath := ''.''\<rparr>)))
     = fst (Flush fs (SetDirectRequire mf (r\<lparr>RelPath := []\<rparr>)))"
proof -
  have "Reload fs' (SetDirectRequire mf (r\<lparr>RelPath := ''.''\<rparr>))
          = Reload fs' (SetDirectRequire mf (r\<lparr>RelPath := []\<rparr>))" for fs'
    by (simp add: Reload_def SetDirectRequire_def Let_def dropAllRequire_def
        directMeta_dot split: sum.splits option.splits content.splits)
  then show ?thesis
    by (simp add: Flush_def Let_def SetDirectRequire_dot SetDirectRequire_f)
qed

text \<open>
  Claim C10, as amended. \<open>SetDirectRequire\<close> treats the relative path \<open>.\<close> as the
  empty one: both give the same require line, neither is written into the comment.
  When \<^verbatim>\<open>modfile.Parse\<close> accepts the module coordinate of the record
  (\<open>acceptedModule\<close>), the build environment and the build flags are well-formed
  elements of the comment and the manifest has no replace directives (which
  \<^verbatim>\<open>modfile.Parse\<close> checks as well), the flush succeeds and the record read back has the
  empty relative path.
\<close>

theorem SetDirectRequire_dot_relpath:
  "m (SetDirectRequire mf (r\<lparr>RelPath := ''.''\<rparr>)) = m (SetDirectRequire mf (r\<lparr>RelPath := []\<rparr>))
   \<and> (acceptedModule (Module r) \<and> list_all envToken (BuildEnvs r) \<and> flagTokens (BuildFlags r)
        \<and> Replace (m mf) = [] \<longrightarrow>
        (\<exists>mf' p. fst (Flush fs (SetDirectRequire mf (r\<lparr>RelPath := ''.''\<rparr>))) = Inr mf'
                 \<and> DirectPackage mf' = Some p \<and> RelPath p = []))"
proof (intro conjI impI)
  show "m (SetDirectRequire mf (r\<lparr>RelPath := ''.''\<rparr>)) = m (SetDirectRequire mf (r\<lparr>RelPath := []\<rparr>))"
    by (rule SetDirectRequire_dot)
next
  assume h: "acceptedModule (Module r) \<and> list_all envToken (BuildEnvs r) \<and> flagTokens (BuildFlags r)
             \<and> Replace (m mf) = []"
  let ?r = "r\<lparr>RelPath := []\<rparr>"
  have a: "acceptedModule (Module ?r)" using h by simp
  have w: "wellFormedMeta ?r" using h by (simp add: wellFormedMeta_def)
  have n: "\<not> indirectMarker (directMeta ?r)"
    using h indirectMarker_envs_flags[of "BuildEnvs r" "BuildFlags r"]
    by (simp add: directMeta_def)
  obtain mf' where "fst (Flush fs (SetDirectRequire mf ?r)) = Inr mf'"
    and "DirectPackage mf' =
           Some \<lparr>Module = \<lparr>Path = Path (Module ?r), Version = CanonicalVersion (Version (Module ?r))\<rparr>,
                 RelPath = RelPath ?r, BuildEnvs = BuildEnvs ?r, BuildFlags = BuildFlags ?r\<rparr>"
    using Flush_SetDirectRequire[OF a w n, of fs mf] by blast
  then show "\<exists>mf' p. fst (Flush fs (SetDirectRequire mf (r\<lparr>RelPath := ''.''\<rparr>))) = Inr mf'
               \<and> DirectPackage mf' = Some p \<and> RelPath p = []"
    unfolding Flush_dot by simp
qed

theorem SetDirectRequire_dot_relpath_witness:
  "acceptedModule (Module examplePackage)
   \<and> list_all envToken (BuildEnvs examplePackage) \<and> flagTokens (BuildFlags examplePackage)
   \<and> Replace (m exampleModFile) = []
   \<and> (\<exists>mf' p. fst (Flush exampleFS (SetDirectRequire exampleModFile (examplePackage\<lparr>RelPath := ''.''\<rparr>))) = Inr mf'
               \<and> DirectPackage mf' = Some p \<and> RelPath p = [])"
proof -
  have h: "acceptedModule (Module examplePackage)
           \<and> list_all envToken (BuildEnvs examplePackage) \<and> flagTokens (BuildFlags examplePackage)
           \<and> Replace (m exampleModFile) = []"
    by code_simp
  from h SetDirectRequire_dot_relpath[of exampleModFile examplePackage exampleFS]
  show ?thesis by blast
qed

text \<open>
  The claim as stated fails for an environment entry whose value contains a space:
  with the relative path \<open>.\<close> and the entry \<open>LABEL=my tool\<close> the relative path read
  back is \<open>tool\<close>.
\<close>

theorem SetDirectRequire_dot_relpath_counterexample:
  "(case fst (Flush exampleFS (SetDirectRequire exampleModFile
        \<lparr>Module = \<lparr>Path = ''github.com/a/b'', Version = ''v1.0.0''\<rparr>, RelPath = ''.'',
          BuildEnvs = [''LABEL=my tool''], BuildFlags = []\<rparr>)) of
      Inl e \<Rightarrow> None
    | Inr mf' \<Rightarrow> map_option RelPath (DirectPackage mf'))
   = Some ''tool''"
  by code_simp

section \<open>The cache prober\<close>

termination resolveLoop
proof (relation "measure (\<lambda>(h, modMetaCache, verbose, update, target, modulePath).
                    length (Split modulePath CHR ''/''))")
  show "wf (measure (\<lambda>(h, modMetaCache, verbose, update, target, modulePath).
                    length (Split modulePath CHR ''/'')))"
    by simp
next
  fix h :: host and modMetaCache :: string and verbose :: bool and update :: GetUpdatePolicy
    and target :: Package and modulePath :: string
  assume "2 < length (Split modulePath CHR ''/'')"
  then show "((h, modMetaCache, verbose, update, target, Dir modulePath),
              (h, modMetaCache, verbose, update, target, modulePath))
             \<in> measure (\<lambda>(h, modMetaCache, verbose, update, target, modulePath).
                    length (Split modulePath CHR ''/''))"
    using Dir_segments[of modulePath] by simp
qed


lemma resolveLoop_step:
  assumes "length (Split modulePath CHR ''/'') > 2"
    and "Stat h (filepath_Join [modMetaCache, modulePath, ''@v'']) = StatNotExist"
  shows "resolveLoop h modMetaCache verbose update target modulePath
           = resolveLoop h modMetaCache verbose update target (Dir modulePath)"
  using assms by (subst resolveLoop.simps) (simp add: probeCandidate_def Let_def)

lemma resolveLoop_found:
  assumes "length (Split modulePath CHR ''/'') > 2"
    and "probeCandidate h modMetaCache verbose update target modulePath = Some r"
  shows "resolveLoop h modMetaCache verbose update target modulePath = r"
  using assms by (subst resolveLoop.simps) simp

lemma resolveLoop_none:
  "(\<And>i. length (Split ((Dir ^^ i) modulePath) CHR ''/'') > 2 \<Longrightarrow>
         Stat h (filepath_Join [modMetaCache, (Dir ^^ i) modulePath, ''@v'']) = StatNotExist) \<Longrightarrow>
   resolveLoop h modMetaCache verbose update target modulePath
     = Inl (NoCachedModule (PackagePath target))"
proof (induction h modMetaCache verbose update target modulePath rule: resolveLoop.induct)
  case (1 h modMetaCache verbose update target modulePath)
  show ?case
  proof (cases "length (Split modulePath CHR ''/'') > 2")
    case False
    then show ?thesis by (subst resolveLoop.simps) simp
  next
    case True
    have st: "Stat h (filepath_Join [modMetaCache, modulePath, ''@v'']) = StatNotExist"
      using "1.prems"[of 0] True by simp
    then have none: "probeCandidate h modMetaCache verbose update target modulePath = None"
      by (simp add: probeCandidate_def Let_def)
    have "resolveLoop h modMetaCache verbose update target (Dir modulePath)
            = Inl (NoCachedModule (PackagePath target))"
    proof (rule "1.IH"[OF True none])
      fix i
      assume "length (Split ((Dir ^^ i) (Dir modulePath)) CHR ''/'') > 2"
      then show "Stat h (filepath_Join [modMetaCache, (Dir ^^ i) (Dir modulePath), ''@v'']) = StatNotExist"
        using "1.prems"[of "Suc i"] by (simp add: funpow_swap1)
    qed
    then show ?thesis using resolveLoop_step[OF True st] by simp
  qed
qed


lemma probeCandidate_serves:
  assumes "cacheServes h modMetaCache update target modulePath"
  shows "\<exists>t. probeCandidate h modMetaCache verbose update target modulePath = Some (Inr t)
             \<and> Path (Module t) = modulePath"
  using assms
  by (auto simp: cacheServes_def probeCandidate_def Let_def
      split: sum.splits option.splits if_splits)

text \<open>
  Claim C6, as amended. The cache prober goes from the full package locator to
  shorter prefixes by stripping the last path segment. When the prefix two segments
  shorter than the locator still has at least three segments, the cache has no
  metadata directory for the locator nor for the prefix one segment shorter, and the
  cache serves the request at the prefix two segments shorter, the probe succeeds
  with that prefix as the module path. When no candidate with at least three segments
  has a metadata directory, it fails with the no-cached-module error.
\<close>

theorem resolveInGoModCache_longest_prefix:
  "(length (Split (Dir (Dir (PackagePath target))) CHR ''/'') > 2
      \<and> Stat h (filepath_Join [filepath_Join [gomodcache h, ''cache/download''],
                               PackagePath target, ''@v'']) = StatNotExist
      \<and> Stat h (filepath_Join [filepath_Join [gomodcache h, ''cache/download''],
                               Dir (PackagePath target), ''@v'']) = StatNotExist
      \<and> cacheServes h (filepath_Join [gomodcache h, ''cache/download'']) update target
           (Dir (Dir (PackagePath target)))
     \<longrightarrow> (\<exists>t. resolveInGoModCache h verbose update target = Inr t
              \<and> Path (Module t) = Dir (Dir (PackagePath target))))
   \<and> ((\<forall>i. length (Split ((Dir ^^ i) (PackagePath target)) CHR ''/'') > 2 \<longrightarrow>
            Stat h (filepath_Join [filepath_Join [gomodcache h, ''cache/download''],
                                   (Dir ^^ i) (PackagePath target), ''@v'']) = StatNotExist)
     \<longrightarrow> resolveInGoModCache h verbose update target
           = Inl (NoCachedModule (PackagePath target)))"
proof (intro conjI impI)
  let ?L = "PackagePath target"
  let ?mc = "filepath_Join [gomodcache h, ''cache/download'']"
  assume a: "length (Split (Dir (Dir ?L)) CHR ''/'') > 2
      \<and> Stat h (filepath_Join [?mc, ?L, ''@v'']) = StatNotExist
      \<and> Stat h (filepath_Join [?mc, Dir ?L, ''@v'']) = StatNotExist
      \<and> cacheServes h ?mc update target (Dir (Dir ?L))"
  then have s2: "length (Split (Dir (Dir ?L)) CHR ''/'') > 2" by simp
  then have s1: "length (Split (Dir ?L) CHR ''/'') > 2" by (rule Dir_segments_parent)
  then have s0: "length (Split ?L CHR ''/'') > 2" by (rule Dir_segments_parent)
  obtain t where t: "probeCandidate h ?mc verbose update target (Dir (Dir ?L)) = Some (Inr t)"
      "Path (Module t) = Dir (Dir ?L)"
    using a probeCandidate_serves by blast
  have "resolveLoop h ?mc verbose update target ?L
          = resolveLoop h ?mc verbose update target (Dir ?L)"
    using s0 a by (intro resolveLoop_step) simp_all
  also have "\<dots> = resolveLoop h ?mc verbose update target (Dir (Dir ?L))"
    using s1 a by (intro resolveLoop_step) simp_all
  also have "\<dots> = Inr t"
    using s2 t(1) by (rule resolveLoop_found)
  finally show "\<exists>t. resolveInGoModCache h verbose update target = Inr t
                  \<and> Path (Module t) = Dir (Dir ?L)"
    using t(2) by (simp add: resolveInGoModCache_def)
next
  assume "\<forall>i. length (Split ((Dir ^^ i) (PackagePath target)) CHR ''/'') > 2 \<longrightarrow>
            Stat h (filepath_Join [filepath_Join [gomodcache h, ''cache/download''],
                                   (Dir ^^ i) (PackagePath target), ''@v'']) = StatNotExist"
  then show "resolveInGoModCache h verbose update target
               = Inl (NoCachedModule (PackagePath target))"
    unfolding resolveInGoModCache_def by (intro resolveLoop_none) blast
qed

theorem resolveInGoModCache_longest_prefix_witness:
  "Dir (Dir (PackagePath (unknownModule ''github.com/a/b/cmd/tool'' []))) = ''github.com/a/b''
   \<and> (\<exists>t. resolveInGoModCache
             (cacheHost [''/go/pkg/mod/cache/download/github.com/a/b/@v'']
                [(''/go/pkg/mod/cache/download/github.com/a/b/@v/list'', [''v1.0.0'', ''v1.1.0''])] [])
             False NoUpdatePolicy (unknownModule ''github.com/a/b/cmd/tool'' []) = Inr t
          \<and> Path (Module t) = ''github.com/a/b'')
   \<and> resolveInGoModCache (cacheHost [] [] []) False NoUpdatePolicy
        (unknownModule ''github.com/a/b/cmd/tool'' [])
       = Inl (NoCachedModule ''github.com/a/b/cmd/tool'')"
proof -
  let ?h = "cacheHost [''/go/pkg/mod/cache/download/github.com/a/b/@v'']
                [(''/go/pkg/mod/cache/download/github.com/a/b/@v/list'', [''v1.0.0'', ''v1.1.0''])] []"
  let ?t = "unknownModule ''github.com/a/b/cmd/tool'' []"
  have d: "Dir (Dir (PackagePath ?t)) = ''github.com/a/b''" by code_simp
  have p: "PackagePath ?t = ''github.com/a/b/cmd/tool''" by code_simp
  have a: "length (Split (Dir (Dir (PackagePath ?t))) CHR ''/'') > 2
      \<and> Stat ?h (filepath_Join [filepath_Join [gomodcache ?h, ''cache/download''],
                               PackagePath ?t, ''@v'']) = StatNotExist
      \<and> Stat ?h (filepath_Join [filepath_Join [gomodcache ?h, ''cache/download''],
                               Dir (PackagePath ?t), ''@v'']) = StatNotExist
      \<and> cacheServes ?h (filepath_Join [gomodcache ?h, ''cache/download'']) NoUpdatePolicy ?t
           (Dir (Dir (PackagePath ?t)))"
    by code_simp
  have b: "\<forall>i. length (Split ((Dir ^^ i) (PackagePath ?t)) CHR ''/'') > 2 \<longrightarrow>
            Stat (cacheHost [] [] []) (filepath_Join [filepath_Join [gomodcache (cacheHost [] [] []), ''cache/download''],
                                   (Dir ^^ i) (PackagePath ?t), ''@v'']) = StatNotExist"
    by (simp add: cacheHost_def)
  note r1 = resolveInGoModCache_longest_prefix[of ?t ?h NoUpdatePolicy False, THEN conjunct1, THEN mp, OF a]
  note r2 = resolveInGoModCache_longest_prefix[of ?t "cacheHost [] [] []" NoUpdatePolicy False,
      THEN conjunct2, THEN mp, OF b]
  from r1 have e: "\<exists>t. resolveInGoModCache ?h False NoUpdatePolicy ?t = Inr t
                      \<and> Path (Module t) = ''github.com/a/b''"
    unfolding d .
  from r2 have n: "resolveInGoModCache (cacheHost [] [] []) False NoUpdatePolicy ?t
                     = Inl (NoCachedModule ''github.com/a/b/cmd/tool'')"
    unfolding p .
  show ?thesis by (intro conjI d e n)
qed

text \<open>
  The claim as stated fails for a locator of four segments: the prefix two segments
  shorter has two segments and is never probed, although the cache serves the request
  there.
\<close>

theorem resolveInGoModCache_longest_prefix_counterexample:
  "Dir (Dir (PackagePath (unknownModule ''k8s.io/code-generator/cmd/client-gen'' [])))
     = ''k8s.io/code-generator''
   \<and> cacheServes
        (cacheHost [''/go/pkg/mod/cache/download/k8s.io/code-generator/@v'']
           [(''/go/pkg/mod/cache/download/k8s.io/code-generator/@v/list'', [''v0.25.0'', ''v0.26.0''])] [])
        ''/go/pkg/mod/cache/download'' NoUpdatePolicy
        (unknownModule ''k8s.io/code-generator/cmd/client-gen'' []) ''k8s.io/code-generator''
   \<and> resolveInGoModCache
        (cacheHost [''/go/pkg/mod/cache/download/k8s.io/code-generator/@v'']
           [(''/go/pkg/mod/cache/download/k8s.io/code-generator/@v/list'', [''v0.25.0'', ''v0.26.0''])] [])
        False NoUpdatePolicy (unknownModule ''k8s.io/code-generator/cmd/client-gen'' [])
      = Inl (NoCachedModule ''k8s.io/code-generator/cmd/client-gen'')"
  by code_simp


text \<open>
  Claim C7, as amended. When no update is requested and the requested version is
  revision-style (does not begin with \<open>v\<close>) and longer than 12 bytes, the cache
  prober, at a candidate whose metadata directory exists and can be listed, succeeds
  on the first entry that is not a directory and whose name ends with the first 12
  bytes of the requested revision followed by \<open>.info\<close>; the module path becomes the
  candidate and the version becomes the name of that entry without its \<open>.info\<close>
  suffix.
\<close>

theorem resolveInGoModCache_revision:
  assumes "update = NoUpdatePolicy"
    and "\<not> HasPrefix (Version (Module target)) ''v''"
    and "length (Version (Module target)) > 12"
    and "length (Split modulePath CHR ''/'') > 2"
    and "Stat h (filepath_Join [modMetaCache, modulePath, ''@v'']) = StatOK"
    and "ReadDir h (filepath_Join [modMetaCache, modulePath, ''@v'']) = Inr files"
    and "find (\<lambda>(name, isDir). \<not> isDir
                 \<and> HasSuffix name (take 12 (Version (Module target)) @ ''.info'')) files
           = Some (name, isDir)"
  shows "resolveLoop h modMetaCache verbose update target modulePath
           = Inr (target\<lparr>Module := \<lparr>Path = modulePath, Version = TrimSuffix name ''.info''\<rparr>,
                         RelPath := TrimPrefix (TrimPrefix (RelPath target) modulePath) ''/''\<rparr>)"
proof -
  have ne: "Version (Module target) \<noteq> []" using assms(3) by auto
  have "revisionInfo (Version (Module target))
          = (\<lambda>(name, isDir). \<not> isDir
                 \<and> HasSuffix name (take 12 (Version (Module target)) @ ''.info''))"
    using assms(3) by (auto simp: revisionInfo_def fun_eq_iff)
  then have "find (revisionInfo (Version (Module target))) files = Some (name, isDir)"
    using assms(7) by simp
  then have "probeCandidate h modMetaCache verbose update target modulePath
        = Some (Inr (target\<lparr>Module := \<lparr>Path = modulePath, Version = TrimSuffix name ''.info''\<rparr>,
                         RelPath := TrimPrefix (TrimPrefix (RelPath target) modulePath) ''/''\<rparr>))"
    using assms(1,2,5,6) ne by (simp add: probeCandidate_def Let_def)
  with assms(4) show ?thesis by (rule resolveLoop_found)
qed

theorem resolveInGoModCache_revision_witness:
  "resolveInGoModCache
     (cacheHost [''/go/pkg/mod/cache/download/github.com/a/b/@v''] []
        [(''/go/pkg/mod/cache/download/github.com/a/b/@v'',
          [(''list'', False), (''v1.0.0.info'', False),
           (''v1.0.1-0.20200101000000-abcdef123456.info'', False)])])
     False NoUpdatePolicy (unknownModule ''github.com/a/b'' ''abcdef1234567890'')
   = Inr \<lparr>Module = \<lparr>Path = ''github.com/a/b'', Version = ''v1.0.1-0.20200101000000-abcdef123456''\<rparr>,
          RelPath = [], BuildEnvs = [], BuildFlags = []\<rparr>"
proof -
  let ?files = "[(''list'', False), (''v1.0.0.info'', False),
           (''v1.0.1-0.20200101000000-abcdef123456.info'', False)]"
  let ?h = "cacheHost [''/go/pkg/mod/cache/download/github.com/a/b/@v''] []
        [(''/go/pkg/mod/cache/download/github.com/a/b/@v'', ?files)]"
  let ?t = "unknownModule ''github.com/a/b'' ''abcdef1234567890''"
  let ?mc = "filepath_Join [gomodcache ?h, ''cache/download'']"
  have a2: "\<not> HasPrefix (Version (Module ?t)) ''v''" by code_simp
  have a3: "length (Version (Module ?t)) > 12" by code_simp
  have a4: "length (Split (PackagePath ?t) CHR ''/'') > 2" by code_simp
  have a5: "Stat ?h (filepath_Join [?mc, PackagePath ?t, ''@v'']) = StatOK" by code_simp
  have a6: "ReadDir ?h (filepath_Join [?mc, PackagePath ?t, ''@v'']) = Inr ?files" by code_simp
  have a7: "find (\<lambda>(name, isDir). \<not> isDir
                 \<and> HasSuffix name (take 12 (Version (Module ?t)) @ ''.info'')) ?files
           = Some (''v1.0.1-0.20200101000000-abcdef123456.info'', False)"
    by code_simp
  have v: "?t\<lparr>Module := \<lparr>Path = PackagePath ?t,
             Version = TrimSuffix ''v1.0.1-0.20200101000000-abcdef123456.info'' ''.info''\<rparr>,
           RelPath := TrimPrefix (TrimPrefix (RelPath ?t) (PackagePath ?t)) ''/''\<rparr>
         = \<lparr>Module = \<lparr>Path = ''github.com/a/b'', Version = ''v1.0.1-0.20200101000000-abcdef123456''\<rparr>,
          RelPath = [], BuildEnvs = [], BuildFlags = []\<rparr>"
    by code_simp
  note r = resolveInGoModCache_revision[OF refl a2 a3 a4 a5 a6 a7, of False]
  show ?thesis unfolding resolveInGoModCache_def r v ..
qed

text \<open>
  The claim as stated fails for a file whose name begins with the first 12 bytes of
  the requested revision: the entry named by the full revision is not accepted, and
  the probe ends with the no-cached-module error.
\<close>

theorem resolveInGoModCache_revision_counterexample:
  "HasPrefix ''abcdef1234567890.info'' (take 12 ''abcdef1234567890'')
   \<and> resolveInGoModCache
       (cacheHost [''/go/pkg/mod/cache/download/github.com/a/b/@v''] []
          [(''/go/pkg/mod/cache/download/github.com/a/b/@v'',
            [(''list'', False), (''abcdef1234567890.info'', False)])])
       False NoUpdatePolicy (unknownModule ''github.com/a/b'' ''abcdef1234567890'')
     = Inl (NoCachedModule ''github.com/a/b'')"
  by code_simp


section \<open>Resolution with the toolchain\<close>

text \<open>
  Claim C2, as amended. When the toolchain resolution succeeds and the disposable
  manifest holds more than one indirect module: if no module path is known for the
  target and no entry has the full package locator as its path, the resolution falls
  through to the cache prober, with the toolchain's output as the toolchain error; if
  a module path is known for the target and no entry has that path, the resolution
  fails at once with a no-indirect-module error.
\<close>

theorem resolvePackage_ambiguous:
  assumes "GetD tc update (PackageString target) (readName fs tmpModFile) = ((out, None), w)"
    and "ModIndirectModules (toolWrite fs tmpModFile w) tmpModFile = Inr mods"
    and "length mods > 1"
  shows "(Path (Module target) = [] \<and> (\<forall>mv\<in>set mods. Path mv \<noteq> PackagePath target) \<longrightarrow>
            fst (resolvePackage tc h fs verbose tmpModFile update target)
              = cacheFallback h verbose update target (ErrorsNew out))
       \<and> (Path (Module target) \<noteq> [] \<and> (\<forall>mv\<in>set mods. Path mv \<noteq> Path (Module target)) \<longrightarrow>
            fst (resolvePackage tc h fs verbose tmpModFile update target)
              = Inl (NoIndirectModuleFor tmpModFile (Path (Module target))))"
proof -
  obtain m1 m2 ms where mods: "mods = m1 # m2 # ms"
    using assms(3) by (cases mods; cases "tl mods") auto
  have none: "find P mods = None" if "\<forall>mv\<in>set mods. \<not> P mv" for P
    using that by (simp add: find_None_iff)
  have "fst (resolvePackage tc h fs verbose tmpModFile update target)
          = cacheFallback h verbose update target (ErrorsNew out)"
    if "Path (Module target) = []" "\<forall>mv\<in>set mods. Path mv \<noteq> PackagePath target"
    using that assms(1,2) none[of "\<lambda>mv. Path mv = PackagePath target"]
    by (simp add: resolvePackage_def Let_def mods[symmetric])
       (simp add: mods)
  moreover have "fst (resolvePackage tc h fs verbose tmpModFile update target)
          = Inl (NoIndirectModuleFor tmpModFile (Path (Module target)))"
    if "Path (Module target) \<noteq> []" "\<forall>mv\<in>set mods. Path mv \<noteq> Path (Module target)"
    using that assms(1,2) none[of "\<lambda>mv. Path mv = Path (Module target)"]
    by (simp add: resolvePackage_def Let_def mods[symmetric])
       (simp add: mods)
  ultimately show ?thesis by blast
qed


theorem resolvePackage_ambiguous_witness:
  "length exampleMods > 1
   \<and> fst (resolvePackage (exampleToolchain ''go: ok'' exampleMods ''main'' None) exampleHost
            exampleFS False ''foo-e.tmp.mod'' NoUpdatePolicy
            (unknownModule ''github.com/a/b/cmd/tool'' []))
       = Inr \<lparr>Module = \<lparr>Path = ''github.com/a/b'', Version = ''v1.1.0''\<rparr>,
              RelPath = ''cmd/tool'', BuildEnvs = [], BuildFlags = []\<rparr>
   \<and> fst (resolvePackage (exampleToolchain ''go: ok'' exampleMods ''main'' None) exampleHost
            exampleFS False ''foo-e.tmp.mod'' NoUpdatePolicy examplePackage)
       = Inl (NoIndirectModuleFor ''foo-e.tmp.mod'' ''github.com/a/b'')"
proof -
  let ?tc = "exampleToolchain ''go: ok'' exampleMods ''main'' None"
  let ?w = "Some (Manifest \<lparr>ModuleStmt = Some [],
                 Require = map (\<lambda>mv. \<lparr>Mod = mv, Indirect = True, Suffix = [''// indirect'']\<rparr>)
                             exampleMods,
                 Replace = [], Comments = []\<rparr>)"
  let ?t = "unknownModule ''github.com/a/b/cmd/tool'' []"
  have l: "length exampleMods > 1" by code_simp
  have g1: "GetD ?tc NoUpdatePolicy (PackageString ?t) (readName exampleFS ''foo-e.tmp.mod'')
              = ((''go: ok'', None), ?w)"
    by (simp add: exampleToolchain_def)
  have g2: "GetD ?tc NoUpdatePolicy (PackageString examplePackage)
              (readName exampleFS ''foo-e.tmp.mod'') = ((''go: ok'', None), ?w)"
    by (simp add: exampleToolchain_def)
  have i: "ModIndirectModules (toolWrite exampleFS ''foo-e.tmp.mod'' ?w) ''foo-e.tmp.mod''
             = Inr exampleMods"
    by code_simp
  have h1: "Path (Module ?t) = [] \<and> (\<forall>mv\<in>set exampleMods. Path mv \<noteq> PackagePath ?t)"
    by code_simp
  have h2: "Path (Module examplePackage) \<noteq> []
            \<and> (\<forall>mv\<in>set exampleMods. Path mv \<noteq> Path (Module examplePackage))"
    by code_simp
  have c: "cacheFallback exampleHost False NoUpdatePolicy ?t (ErrorsNew ''go: ok'')
             = Inr \<lparr>Module = \<lparr>Path = ''github.com/a/b'', Version = ''v1.1.0''\<rparr>,
                    RelPath = ''cmd/tool'', BuildEnvs = [], BuildFlags = []\<rparr>"
    by code_simp
  have p: "Path (Module examplePackage) = ''github.com/a/b''" by code_simp
  note r1 = resolvePackage_ambiguous[OF g1 i l, of exampleHost False, THEN conjunct1, THEN mp, OF h1]
  note r2 = resolvePackage_ambiguous[OF g2 i l, of exampleHost False, THEN conjunct2, THEN mp, OF h2]
  show ?thesis
    by (intro conjI l r1[unfolded c] r2[unfolded p])
qed

text \<open>
  The claim as stated fails when a module path is known for the target: none of the
  two indirect modules matches it, the cache prober would resolve the target, and
  the resolution fails at once.
\<close>

theorem resolvePackage_ambiguous_counterexample:
  "\<not> isl (resolveInGoModCache exampleHost False NoUpdatePolicy examplePackage)
   \<and> fst (resolvePackage (exampleToolchain ''go: ok'' exampleMods ''main'' None) exampleHost
            exampleFS False ''foo-e.tmp.mod'' NoUpdatePolicy examplePackage)
       = Inl (NoIndirectModuleFor ''foo-e.tmp.mod'' ''github.com/a/b'')"
  by code_simp


section \<open>Install, uninstall and the file of record\<close>

text \<open>
  Claim C8: the install step builds a binary if and only if the kind that the
  toolchain reports is \<open>main\<close>, and fails with a not-installable error for every
  other kind. The source tests only that the output of the list step ends with
  \<open>main\<close>: for a package named \<open>domain\<close> the check passes and the binary is built.
\<close>

theorem install_builds_non_main:
  "HasSuffix ''domain'' ''main''
   \<and> fst (install (exampleToolchain [] [] ''domain'' None) exampleFS ''tool'' False exampleStaged)
       = None
   \<and> bin (snd (install (exampleToolchain [] [] ''domain'' None) exampleFS ''tool'' False
                 exampleStaged))
       = [(''tool-v1.0.0'', Binary ''github.com/a/b/cmd/tool'')]"
  by code_simp

lemma names_removeName:
  "map fst (pin (removeName fs x)) = filter (\<lambda>n. n \<noteq> x) (map fst (pin fs))"
  by (simp add: removeName_def filter_map o_def)

lemma names_foldl_removeName:
  "map fst (pin (foldl removeName fs xs)) = filter (\<lambda>n. n \<notin> set xs) (map fst (pin fs))"
proof (induction xs arbitrary: fs)
  case Nil
  then show ?case by simp
next
  case (Cons x xs)
  show ?case
    by (simp add: Cons names_removeName)
qed

lemma bin_foldl_removeName: "bin (foldl removeName fs xs) = bin fs"
  by (induction xs arbitrary: fs) (simp_all add: removeName_def)

lemma removeAllGlob_None:
  assumes "removeAllGlob match fs pat = (None, fs')"
  shows "bin fs' = bin fs"
    and "set (map fst (pin fs')) = {n \<in> set (map fst (pin fs)). match pat n \<noteq> Some True}"
proof -
  let ?files = "filter (\<lambda>n. match pat n = Some True) (map fst (pin fs))"
  have fs': "fs' = foldl removeName fs ?files"
    using assms by (auto simp: removeAllGlob_def Glob_def Let_def split: sum.splits if_splits)
  show "bin fs' = bin fs"
    unfolding fs' by (rule bin_foldl_removeName)
  have "map fst (pin fs') = filter (\<lambda>n. n \<notin> set ?files) (map fst (pin fs))"
    unfolding fs' by (rule names_foldl_removeName)
  then have "set (map fst (pin fs')) = {n \<in> set (map fst (pin fs)). n \<notin> set ?files}"
    by (simp only: set_filter)
  also have "\<dots> = {n \<in> set (map fst (pin fs)). match pat n \<noteq> Some True}"
    by (simp only: set_filter) blast
  finally show "set (map fst (pin fs')) = {n \<in> set (map fst (pin fs)). match pat n \<noteq> Some True}" .
qed

lemma cleanGoGetTmpFiles_None:
  assumes "cleanGoGetTmpFiles match fs = (None, fs')"
  shows "bin fs' = bin fs"
    and "set (map fst (pin fs')) =
           {n \<in> set (map fst (pin fs)). match ''*.sum'' n \<noteq> Some True
              \<and> match ''*.*.tmp.*'' n \<noteq> Some True \<and> match ''*.tmp.*'' n \<noteq> Some True}"
proof -
  from assms obtain fs1 fs2 where
      r1: "removeAllGlob match fs ''*.sum'' = (None, fs1)"
      and r2: "removeAllGlob match fs1 ''*.*.tmp.*'' = (None, fs2)"
      and r3: "removeAllGlob match fs2 ''*.tmp.*'' = (None, fs')"
    by (auto simp: cleanGoGetTmpFiles_def split: prod.splits option.splits)
  show "bin fs' = bin fs"
    using removeAllGlob_None(1)[OF r1] removeAllGlob_None(1)[OF r2] removeAllGlob_None(1)[OF r3]
    by simp
  show "set (map fst (pin fs')) =
           {n \<in> set (map fst (pin fs)). match ''*.sum'' n \<noteq> Some True
              \<and> match ''*.*.tmp.*'' n \<noteq> Some True \<and> match ''*.tmp.*'' n \<noteq> Some True}"
    unfolding removeAllGlob_None(2)[OF r3] removeAllGlob_None(2)[OF r2]
      removeAllGlob_None(2)[OF r1]
    by blast
qed

lemma writeFile_names: "set (map fst (pin fs)) \<subseteq> set (map fst (pin (writeFile fs n c)))"
  by (auto simp: writeFile_def split: option.splits)

lemma writeFile_bin: "bin (writeFile fs n c) = bin fs"
  by (simp add: writeFile_def split: option.splits)

lemma ensureModDirExists_names:
  "set (map fst (pin fs)) \<subseteq> set (map fst (pin (ensureModDirExists fs)))"
  unfolding ensureModDirExists_def
  by (meson writeFile_names subset_trans)

lemma ensureModDirExists_bin: "bin (ensureModDirExists fs) = bin fs"
  by (simp add: ensureModDirExists_def writeFile_bin)

lemma get_none_target:
  assumes "parseTarget rawTarget = Inr (name, pkgPath, versions)" and "hd versions = ''none''"
  shows "get match c getAll renameTool installTargets fs rawTarget =
     (case cleanGoGetTmpFiles match fs of
        (Some e, fs1) \<Rightarrow> (Some e, fs1)
      | (None, fs1) \<Rightarrow>
          let fs2 = ensureModDirExists fs1
          in if cfg_update c \<noteq> NoUpdatePolicy then (Some (UpgradeTakesNoVersion versions), fs2)
             else if cfg_rename c \<noteq> [] then
               (if pkgPath \<noteq> [] then (Some (RenameByPath pkgPath), fs2)
                else (Some (RenameTakesNoVersion versions), fs2))
             else if cfg_name c \<noteq> [] then
               (Some (Wrap (if cfg_name c = name then NewNameSame (cfg_name c)
                            else NoneWithNewName) ''-n''), fs2)
             else (case existingModFiles match fs2 name of
                     Inl e \<Rightarrow> (Some (Wrap e ''existing mod files''), fs2)
                   | Inr existing \<Rightarrow>
                       if pkgPath \<noteq> [] then (Some (CannotDeleteByPath name), fs2)
                       else if existing = [] then (Some (NothingToDelete name), fs2)
                       else removeAllGlob match fs2 (name @ ''.*'')))"
proof -
  have ne: "rawTarget \<noteq> []"
    using assms(1) by (auto simp: parseTarget_def)
  show ?thesis
    using assms ne
    by (auto simp: get_def Let_def validateNewName_def
        split: prod.splits option.splits sum.splits)
qed

text \<open>
  Claim C9, as amended. An uninstall invocation (a target whose version is \<open>none\<close>)
  fails when a full package locator was given and when no manifest of the name
  exists. When it succeeds, the install directory is as it was, and every entry of
  the pin directory that is gone matches \<open>name.*\<close> or one of the patterns of the
  transient files that every run removes first (\<open>*.sum\<close>, \<open>*.*.tmp.*\<close>,
  \<open>*.tmp.*\<close>).
\<close>

theorem get_uninstall:
  assumes "parseTarget rawTarget = Inr (name, pkgPath, versions)" and "hd versions = ''none''"
  shows "(pkgPath \<noteq> [] \<longrightarrow>
            fst (get match c getAll renameTool installTargets fs rawTarget) \<noteq> None)
       \<and> (existingModFiles match (ensureModDirExists (snd (cleanGoGetTmpFiles match fs))) name
             = Inr [] \<longrightarrow>
            fst (get match c getAll renameTool installTargets fs rawTarget) \<noteq> None)
       \<and> (fst (get match c getAll renameTool installTargets fs rawTarget) = None \<longrightarrow>
            bin (snd (get match c getAll renameTool installTargets fs rawTarget)) = bin fs
            \<and> (\<forall>n\<in>set (map fst (pin fs)).
                  n \<notin> set (map fst (pin (snd (get match c getAll renameTool installTargets fs
                                                 rawTarget)))) \<longrightarrow>
                  match (name @ ''.*'') n = Some True \<or> match ''*.sum'' n = Some True
                  \<or> match ''*.*.tmp.*'' n = Some True \<or> match ''*.tmp.*'' n = Some True))"
proof (intro conjI impI)
  note g = get_none_target[OF assms, of match c getAll renameTool installTargets fs]
  show "fst (get match c getAll renameTool installTargets fs rawTarget) \<noteq> None"
    if "pkgPath \<noteq> []"
    using that unfolding g
    by (auto simp: Let_def split: prod.splits option.splits sum.splits)
  show "fst (get match c getAll renameTool installTargets fs rawTarget) \<noteq> None"
    if "existingModFiles match (ensureModDirExists (snd (cleanGoGetTmpFiles match fs))) name
          = Inr []"
    using that unfolding g
    by (auto simp: Let_def split: prod.splits option.splits sum.splits)
  assume ok: "fst (get match c getAll renameTool installTargets fs rawTarget) = None"
  obtain fs1 where c1: "cleanGoGetTmpFiles match fs = (None, fs1)"
    using ok unfolding g by (auto split: prod.splits option.splits)
  let ?fs2 = "ensureModDirExists fs1"
  obtain fs3 where r: "removeAllGlob match ?fs2 (name @ ''.*'') = (None, fs3)"
      and res: "get match c getAll renameTool installTargets fs rawTarget = (None, fs3)"
    using ok unfolding g c1
    by (auto simp: Let_def split: sum.splits if_splits) (metis prod.collapse)+
  show "bin (snd (get match c getAll renameTool installTargets fs rawTarget)) = bin fs"
    using removeAllGlob_None(1)[OF r] cleanGoGetTmpFiles_None(1)[OF c1]
    by (simp add: res ensureModDirExists_bin)
  show "\<forall>n\<in>set (map fst (pin fs)).
          n \<notin> set (map fst (pin (snd (get match c getAll renameTool installTargets fs
                                         rawTarget)))) \<longrightarrow>
          match (name @ ''.*'') n = Some True \<or> match ''*.sum'' n = Some True
          \<or> match ''*.*.tmp.*'' n = Some True \<or> match ''*.tmp.*'' n = Some True"
  proof (intro ballI impI)
    fix n
    assume n: "n \<in> set (map fst (pin fs))"
      and gone: "n \<notin> set (map fst (pin (snd (get match c getAll renameTool installTargets fs
                                                 rawTarget))))"
    show "match (name @ ''.*'') n = Some True \<or> match ''*.sum'' n = Some True
          \<or> match ''*.*.tmp.*'' n = Some True \<or> match ''*.tmp.*'' n = Some True"
    proof (cases "n \<in> set (map fst (pin fs1))")
      case False
      then show ?thesis
        using n unfolding cleanGoGetTmpFiles_None(2)[OF c1] by blast
    next
      case True
      then have "n \<in> set (map fst (pin ?fs2))"
        using ensureModDirExists_names[of fs1] by blast
      moreover have "n \<notin> set (map fst (pin fs3))"
        using gone by (simp add: res)
      ultimately show ?thesis
        unfolding removeAllGlob_None(2)[OF r] by blast
    qed
  qed
qed

theorem get_uninstall_witness:
  "parseTarget ''foo@none'' = Inr (''foo'', [], [''none''])
   \<and> fst (get exampleMatch exampleConfig (\<lambda>fs. (None, fs)) (\<lambda>n fs. (None, fs))
            (\<lambda>t n p vs ex fs. (None, fs)) examplePin ''github.com/a/foo@none'') \<noteq> None
   \<and> fst (get exampleMatch exampleConfig (\<lambda>fs. (None, fs)) (\<lambda>n fs. (None, fs))
            (\<lambda>t n p vs ex fs. (None, fs)) examplePin ''baz@none'') \<noteq> None
   \<and> fst (get exampleMatch exampleConfig (\<lambda>fs. (None, fs)) (\<lambda>n fs. (None, fs))
            (\<lambda>t n p vs ex fs. (None, fs)) examplePin ''foo@none'') = None
   \<and> bin (snd (get exampleMatch exampleConfig (\<lambda>fs. (None, fs)) (\<lambda>n fs. (None, fs))
            (\<lambda>t n p vs ex fs. (None, fs)) examplePin ''foo@none'')) = bin examplePin"
proof -
  let ?all = "\<lambda>fs :: fsys. (None :: error option, fs)"
  let ?ren = "\<lambda>(n :: string) fs :: fsys. (None :: error option, fs)"
  let ?ins = "\<lambda>(t :: string) (n :: string) (p :: string) (vs :: string list) (ex :: string list)
                 fs :: fsys. (None :: error option, fs)"
  have hd: "hd [''none''] = ''none''" by simp
  have p1: "parseTarget ''foo@none'' = Inr (''foo'', [], [''none''])" by code_simp
  have p2: "parseTarget ''github.com/a/foo@none'' = Inr (''foo'', ''github.com/a/foo'', [''none''])"
    by code_simp
  have p3: "parseTarget ''baz@none'' = Inr (''baz'', [], [''none''])" by code_simp
  have n2: "''github.com/a/foo'' \<noteq> []" by simp
  have e3: "existingModFiles exampleMatch
              (ensureModDirExists (snd (cleanGoGetTmpFiles exampleMatch examplePin))) ''baz'' = Inr []"
    by code_simp
  have ok: "fst (get exampleMatch exampleConfig ?all ?ren ?ins examplePin ''foo@none'') = None"
    by code_simp
  note a = get_uninstall[OF p2 hd, of exampleMatch exampleConfig ?all ?ren ?ins examplePin,
      THEN conjunct1, THEN mp, OF n2]
  note b = get_uninstall[OF p3 hd, of exampleMatch exampleConfig ?all ?ren ?ins examplePin,
      THEN conjunct2, THEN conjunct1, THEN mp, OF e3]
  note c = get_uninstall[OF p1 hd, of exampleMatch exampleConfig ?all ?ren ?ins examplePin,
      THEN conjunct2, THEN conjunct2, THEN mp, OF ok, THEN conjunct1]
  show ?thesis by (intro conjI p1 a b ok c)
qed

text \<open>
  The claim as stated fails for the stale sum file of another tool: the uninstall of
  \<open>foo\<close> succeeds, and the entry \<open>bar.sum\<close>, which \<open>foo.*\<close> does not match, is
  gone.
\<close>

theorem get_uninstall_counterexample:
  "fst (get exampleMatch exampleConfig (\<lambda>fs. (None, fs)) (\<lambda>n fs. (None, fs))
          (\<lambda>t n p vs ex fs. (None, fs)) examplePin ''foo@none'') = None
   \<and> ''bar.sum'' \<in> set (map fst (pin examplePin))
   \<and> ''bar.sum'' \<notin> set (map fst (pin (snd (get exampleMatch exampleConfig (\<lambda>fs. (None, fs))
          (\<lambda>n fs. (None, fs)) (\<lambda>t n p vs ex fs. (None, fs)) examplePin ''foo@none''))))
   \<and> exampleMatch ''foo.*'' ''bar.sum'' = Some False"
  by code_simp

text \<open>
  Claim C1: when a step of the install of a target fails before the final rename,
  the file of record is what it was before the invocation, and the rename is the only
  operation that changes it. The source, staging the manifest, opens the file of
  record and closes it again (\<open>fromExisting\<close>), and \<open>Close\<close> flushes: the file of
  record is overwritten with the syntax tree that \<open>Reload\<close> left in memory, which has
  the direct require line only. Here the file of record has a direct and an indirect
  require line and the build fails: the install fails, the staged manifest is still
  beside the file of record (no rename took place), and the file of record has lost
  its indirect line.
\<close>

theorem getPackage_rewrites_file_of_record:
  "readName exampleRecordFS ''foo.mod'' = Some (Manifest exampleRecord)
   \<and> fst (getPackage exampleMatch
          (exampleToolchain [] [] ''main'' (Some (ToolchainError ''build failed''))) exampleHost
          (forPackage exampleConfig) exampleRecordFS 0 ''foo''
          \<lparr>Module = \<lparr>Path = ''github.com/a/b'', Version = ''v1.0.0''\<rparr>, RelPath = [],
            BuildEnvs = [], BuildFlags = []\<rparr>)
     = Some (Wrap (Wrap (ToolchainError ''build failed'') ''build versioned'') ''install'')
   \<and> readName (snd (getPackage exampleMatch
          (exampleToolchain [] [] ''main'' (Some (ToolchainError ''build failed''))) exampleHost
          (forPackage exampleConfig) exampleRecordFS 0 ''foo''
          \<lparr>Module = \<lparr>Path = ''github.com/a/b'', Version = ''v1.0.0''\<rparr>, RelPath = [],
            BuildEnvs = [], BuildFlags = []\<rparr>)) ''foo.mod''
     = Some (Manifest (exampleRecord\<lparr>Require :=
               [\<lparr>Mod = \<lparr>Path = ''github.com/a/b'', Version = ''v1.0.0''\<rparr>, Indirect = False,
                 Suffix = []\<rparr>]\<rparr>))
   \<and> exampleRecord\<lparr>Require :=
               [\<lparr>Mod = \<lparr>Path = ''github.com/a/b'', Version = ''v1.0.0''\<rparr>, Indirect = False,
                 Suffix = []\<rparr>]\<rparr> \<noteq> exampleRecord
   \<and> map fst (pin (snd (getPackage exampleMatch
          (exampleToolchain [] [] ''main'' (Some (ToolchainError ''build failed''))) exampleHost
          (forPackage exampleConfig) exampleRecordFS 0 ''foo''
          \<lparr>Module = \<lparr>Path = ''github.com/a/b'', Version = ''v1.0.0''\<rparr>, RelPath = [],
            BuildEnvs = [], BuildFlags = []\<rparr>))) = [''foo.mod'', ''foo.tmp.mod'']"
  by code_simp

end
